theory Spec2Isabelle
  imports Main "HOL-Library.Char_ord" "HOL-Library.List_Lexorder" "HOL-Library.Sublist"
    "HOL-Library.Multiset"
begin

section \<open>JSON values and the JavaScript operations the worker applies to them\<close>

text \<open>
  The worker (\<^verbatim>\<open>src/index.ts\<close>, class \<^verbatim>\<open>NotesDO\<close>) receives untyped JSON.  A decoded value
  is a \<open>json\<close>.  \<open>JNum n\<close> is a JSON number whose value is the integer \<open>n\<close> with
  \<open>\<bar>n\<bar> \<le> 2^53\<close>, the range in which double arithmetic on integers is exact; every other
  number (a fraction, a larger magnitude) is \<open>JNumOther\<close> of its literal and is opaque to
  the model.  An object is an association list read with \<open>map_of\<close>.
  A JavaScript value that may be \<^verbatim>\<open>undefined\<close> is a \<open>json option\<close>, \<open>None\<close> being
  \<^verbatim>\<open>undefined\<close>.
\<close>

datatype json =
    JNull
  | JBool bool
  | JNum int
  | JNumOther string
  | JStr string
  | JArr "json list"
  | JObj "(string \<times> json) list"

text \<open>JavaScript truthiness: \<^verbatim>\<open>null\<close>, \<^verbatim>\<open>false\<close>, \<^verbatim>\<open>0\<close> and \<^verbatim>\<open>""\<close> are falsy.\<close>

fun truthy :: "json \<Rightarrow> bool" where
  "truthy JNull = False"
| "truthy (JBool b) = b"
| "truthy (JNum n) = (n \<noteq> 0)"
| "truthy (JNumOther s) = True"
| "truthy (JStr s) = (s \<noteq> [])"
| "truthy (JArr xs) = True"
| "truthy (JObj kvs) = True"

text \<open>\<^verbatim>\<open>typeof v === 'object'\<close>: objects, arrays and \<^verbatim>\<open>null\<close>.\<close>

fun typeof_object :: "json \<Rightarrow> bool" where
  "typeof_object JNull = True"
| "typeof_object (JArr xs) = True"
| "typeof_object (JObj kvs) = True"
| "typeof_object v = False"

text \<open>
  The property read \<^verbatim>\<open>v[k]\<close> / \<^verbatim>\<open>v.k\<close> for the keys the worker reads: \<^verbatim>\<open>"0"\<close>,
  \<^verbatim>\<open>input\<close>, \<^verbatim>\<open>params\<close>, \<^verbatim>\<open>noteId\<close>, \<^verbatim>\<open>body\<close>, \<^verbatim>\<open>title\<close>, \<^verbatim>\<open>content\<close>,
  \<^verbatim>\<open>category\<close>, \<^verbatim>\<open>published\<close>, \<^verbatim>\<open>page\<close>, \<^verbatim>\<open>limit\<close>.  None of them names a built-in
  property of a number, boolean, string or array, except the index \<^verbatim>\<open>"0"\<close> of an array
  or a string.  A read on \<^verbatim>\<open>null\<close> would raise a TypeError; every read in the source
  is behind a truthiness test or an optional chain, so \<open>None\<close> is never observed there.
\<close>

fun js_get :: "json \<Rightarrow> string \<Rightarrow> json option" where
  "js_get (JObj kvs) k = map_of kvs k"
| "js_get (JArr xs) k = (if k = ''0'' then (case xs of [] \<Rightarrow> None | x # _ \<Rightarrow> Some x) else None)"
| "js_get (JStr s) k = (if k = ''0'' then (case s of [] \<Rightarrow> None | c # _ \<Rightarrow> Some (JStr [c])) else None)"
| "js_get v k = None"

text \<open>The same on a value that may be \<^verbatim>\<open>undefined\<close> (\<^verbatim>\<open>v?.k\<close>), and its truthiness.\<close>

fun member :: "json option \<Rightarrow> string \<Rightarrow> json option" where
  "member None k = None"
| "member (Some v) k = js_get v k"

fun truthy_opt :: "json option \<Rightarrow> bool" where
  "truthy_opt None = False"
| "truthy_opt (Some v) = truthy v"

text \<open>\<^verbatim>\<open>s.includes(pat)\<close> on strings.\<close>

definition str_includes :: "string \<Rightarrow> string \<Rightarrow> bool" where
  "str_includes s pat = sublist pat s"

section \<open>The notes table\<close>

text \<open>
  \<^verbatim>\<open>CREATE TABLE notes (id TEXT PRIMARY KEY, title TEXT UNIQUE NOT NULL, content TEXT NOT NULL,
  category TEXT, published BOOLEAN DEFAULT 0, createdAt TEXT NOT NULL, updatedAt TEXT NOT NULL)\<close>.
  A row is a record of its columns; \<open>None\<close> in \<open>col_category\<close> is SQL NULL, and
  \<open>col_published\<close> holds the integer the worker binds (1 or 0).  The table is the list of
  its rows in insertion order.
\<close>

record row =
  col_id :: string
  col_title :: string
  col_content :: string
  col_category :: "string option"
  col_published :: int
  col_createdAt :: string
  col_updatedAt :: string

type_synonym store = "row list"

text \<open>The interface \<^verbatim>\<open>Note\<close> of the source, as the handlers return it.\<close>

record Note =
  note_id :: string
  note_title :: string
  note_content :: string
  note_category :: "string option"
  note_published :: bool
  note_createdAt :: string
  note_updatedAt :: string

text \<open>
  What lies outside the source: \<^verbatim>\<open>JSON.parse\<close> / \<^verbatim>\<open>request.json()\<close> (\<open>None\<close> when it
  raises); what the SQL binding does with a \<^verbatim>\<open>noteId\<close> that is not a string (it raises
  an error with a message, or the TEXT column \<^verbatim>\<open>id\<close> is compared with some text); and the
  outcome of the page query when \<^verbatim>\<open>limit\<close> or \<^verbatim>\<open>page\<close> is not an exactly representable
  integer (the statement raises an error with a message, or returns some rows).  They are
  parameters of the model; every theorem holds for all of them.
\<close>

record host =
  json_parse :: "string \<Rightarrow> json option"
  bind_other :: "json \<Rightarrow> string + string"
  page_query_other :: "json \<Rightarrow> json \<Rightarrow> store \<Rightarrow> string + row list"

subsection \<open>The SQL statements\<close>

text \<open>\<^verbatim>\<open>SELECT * FROM notes WHERE id = ?\<close>.\<close>

definition select_by_id :: "string \<Rightarrow> store \<Rightarrow> row list" where
  "select_by_id k db = filter (\<lambda>r. col_id r = k) db"

text \<open>
  \<^verbatim>\<open>result.one()\<close>: the only row, an error when there is none or more than one.
\<close>

fun sql_one :: "'a list \<Rightarrow> string + 'a" where
  "sql_one [r] = Inr r"
| "sql_one rs = Inl ''Expected exactly one result from SQL query''"

text \<open>\<^verbatim>\<open>titleExists\<close>: \<^verbatim>\<open>SELECT COUNT(*) as count FROM notes WHERE title = ?\<close>, \<^verbatim>\<open>count > 0\<close>.\<close>

definition titleExists :: "string \<Rightarrow> store \<Rightarrow> bool" where
  "titleExists t db = (length (filter (\<lambda>r. col_title r = t) db) > 0)"

text \<open>
  \<^verbatim>\<open>INSERT INTO notes ... VALUES (?, ?, ?, ?, ?, ?, ?)\<close> under the table's constraints:
  the statement fails, changing nothing, when the primary key or the title is taken.
\<close>

definition sql_insert :: "row \<Rightarrow> store \<Rightarrow> string + store" where
  "sql_insert r db =
     (if col_id r \<in> set (map col_id db) then Inl ''UNIQUE constraint failed: notes.id''
      else if col_title r \<in> set (map col_title db) then Inl ''UNIQUE constraint failed: notes.title''
      else Inr (db @ [r]))"

text \<open>
  The assignments of \<^verbatim>\<open>UPDATE notes SET ... WHERE id = ?\<close>, in the order the handler
  pushes them onto \<^verbatim>\<open>updateFields\<close> and \<^verbatim>\<open>params\<close>.
\<close>

datatype assignment =
    SetTitle string
  | SetContent string
  | SetCategory string
  | SetPublished int
  | SetUpdatedAt string

fun assign :: "assignment \<Rightarrow> row \<Rightarrow> row" where
  "assign (SetTitle t) r = r\<lparr>col_title := t\<rparr>"
| "assign (SetContent c) r = r\<lparr>col_content := c\<rparr>"
| "assign (SetCategory c) r = r\<lparr>col_category := Some c\<rparr>"
| "assign (SetPublished p) r = r\<lparr>col_published := p\<rparr>"
| "assign (SetUpdatedAt u) r = r\<lparr>col_updatedAt := u\<rparr>"

text \<open>
  The update statement: every row with the given id gets the assignments; the statement
  fails, changing nothing, when the table would then hold a title twice.
\<close>

definition sql_update :: "assignment list \<Rightarrow> string \<Rightarrow> store \<Rightarrow> string + store" where
  "sql_update updateFields k db =
     (let db' = map (\<lambda>r. if col_id r = k then fold assign updateFields r else r) db
      in if distinct (map col_title db') then Inr db'
         else Inl ''UNIQUE constraint failed: notes.title'')"

text \<open>\<^verbatim>\<open>DELETE FROM notes WHERE id = ?\<close>.\<close>

definition sql_delete :: "string \<Rightarrow> store \<Rightarrow> store" where
  "sql_delete k db = filter (\<lambda>r. col_id r \<noteq> k) db"

text \<open>
  \<^verbatim>\<open>ORDER BY createdAt DESC\<close>: TEXT values compare bytewise, the lexicographic order of
  \<open>string\<close>.  SQL leaves the relative order of rows with equal keys open; the model keeps
  them in table order (a stable insertion sort).
\<close>

fun insert_desc :: "row \<Rightarrow> row list \<Rightarrow> row list" where
  "insert_desc r [] = [r]"
| "insert_desc r (x # xs) =
     (if col_createdAt r < col_createdAt x then x # insert_desc r xs else r # x # xs)"

definition order_by_createdAt_desc :: "store \<Rightarrow> row list" where
  "order_by_createdAt_desc db = foldr insert_desc db []"

text \<open>
  \<^verbatim>\<open>LIMIT l OFFSET k\<close> on integers, as SQLite reads them: a negative offset counts as 0, a
  negative limit is no limit.
\<close>

definition sql_limit_offset :: "int \<Rightarrow> int \<Rightarrow> 'a list \<Rightarrow> 'a list" where
  "sql_limit_offset l k rs =
     (let rest = drop (nat k) rs in if l < 0 then rest else take (nat l) rest)"

text \<open>The bound \<^verbatim>\<open>noteId\<close>: a string is compared as it is.\<close>

definition sql_bind_id :: "host \<Rightarrow> json \<Rightarrow> string + string" where
  "sql_bind_id h v = (case v of JStr s \<Rightarrow> Inr s | _ \<Rightarrow> bind_other h v)"

text \<open>\<^verbatim>\<open>mapSqliteRow\<close>.\<close>

definition mapSqliteRow :: "row \<Rightarrow> Note" where
  "mapSqliteRow r =
     \<lparr> note_id = col_id r,
       note_title = col_title r,
       note_content = col_content r,
       note_category = (case col_category r of
                          None \<Rightarrow> None
                        | Some c \<Rightarrow> if c \<noteq> [] then Some c else None),
       note_published = (col_published r = 1),
       note_createdAt = col_createdAt r,
       note_updatedAt = col_updatedAt r \<rparr>"

section \<open>Requests, responses and the decoder\<close>

text \<open>
  The parts of a \<^verbatim>\<open>Request\<close> the worker reads: the method, \<^verbatim>\<open>url.pathname\<close>,
  \<^verbatim>\<open>url.searchParams.has("batch")\<close>, \<^verbatim>\<open>url.searchParams.get("input")\<close>, the
  \<^verbatim>\<open>content-type\<close> header and the body text.
\<close>

record request =
  req_method :: string
  req_pathname :: string
  req_batch :: bool
  req_input :: "string option"
  req_content_type :: "string option"
  req_body :: string

text \<open>An exception by its \<^verbatim>\<open>name\<close>: a \<^verbatim>\<open>ZodError\<close>, or any other error with its message.\<close>

datatype exn = ZodError | OtherError string

text \<open>
  The payloads of the success envelope \<^verbatim>\<open>{ result: { data } }\<close>:
  \<^verbatim>\<open>{status, data: {note}}\<close>, \<^verbatim>\<open>{status, note}\<close>, \<^verbatim>\<open>{status, results, notes}\<close>,
  \<^verbatim>\<open>{status}\<close> and the greeting.  A response is a success envelope (status 200), an
  error envelope \<^verbatim>\<open>{ error: { message, code } }\<close> with its HTTP status, the CORS
  preflight, or the plain 404; the flag says whether the envelope is batched.
\<close>

datatype payload =
    CreatedNote Note
  | OneNote Note
  | NoteList nat "Note list"
  | StatusOnly
  | Welcome

datatype response =
    Result payload bool
  | Failure string string nat bool
  | Preflight
  | NotFoundText

definition formatTRPCResponse :: "payload \<Rightarrow> bool \<Rightarrow> response" where
  "formatTRPCResponse result isBatch = Result result isBatch"

definition formatTRPCErrorResponse :: "string \<Rightarrow> string \<Rightarrow> nat \<Rightarrow> bool \<Rightarrow> response" where
  "formatTRPCErrorResponse code message status isBatch = Failure code message status isBatch"

text \<open>The empty input payload \<^verbatim>\<open>{ input: {} }\<close>.\<close>

definition empty_input :: json where
  "empty_input = JObj [(''input'', JObj [])]"

text \<open>
  \<^verbatim>\<open>parseInput\<close>, lines 117 to 125: what becomes of a decoded raw value.
\<close>

definition wrap_raw :: "bool \<Rightarrow> json \<Rightarrow> json" where
  "wrap_raw isBatch rawData =
     (case (if isBatch \<and> truthy rawData \<and> typeof_object rawData
            then js_get rawData ''0'' else None) of
        Some v \<Rightarrow> JObj [(''input'', v)]
      | None \<Rightarrow>
          if truthy rawData \<and> js_get rawData ''input'' \<noteq> None then rawData
          else JObj [(''input'', rawData)])"

text \<open>
  The body of the \<^verbatim>\<open>try\<close> of \<^verbatim>\<open>parseInput\<close>: \<open>Inl\<close> is a raised exception
  (\<^verbatim>\<open>JSON.parse\<close> or \<^verbatim>\<open>request.json()\<close> failing, an unsupported content type or
  method), \<open>Inr\<close> the returned value.
\<close>

definition parseInput_try :: "host \<Rightarrow> request \<Rightarrow> exn + json" where
  "parseInput_try h request =
     (let isBatch = req_batch request in
      if req_method request = ''GET'' then
        (case req_input request of
           None \<Rightarrow> Inr empty_input
         | Some inputParam \<Rightarrow>
             if inputParam = [] then Inr empty_input
             else (case json_parse h inputParam of
                     None \<Rightarrow> Inl (OtherError ''Unexpected token'')
                   | Some rawData \<Rightarrow> Inr (wrap_raw isBatch rawData)))
      else if req_method request = ''POST'' then
        (let contentType = (case req_content_type request of None \<Rightarrow> [] | Some c \<Rightarrow> c) in
         if str_includes contentType ''application/json'' then
           (case json_parse h (req_body request) of
              None \<Rightarrow> Inl (OtherError ''Unexpected token'')
            | Some rawData \<Rightarrow> Inr (wrap_raw isBatch rawData))
         else Inl (OtherError (''Unsupported content type: '' @ contentType)))
      else Inl (OtherError (''Unsupported method: '' @ req_method request)))"

text \<open>\<^verbatim>\<open>parseInput\<close>: the \<^verbatim>\<open>catch\<close> turns every exception into the empty input payload.\<close>

definition parseInput :: "host \<Rightarrow> request \<Rightarrow> json" where
  "parseInput h request =
     (case parseInput_try h request of Inr data \<Rightarrow> data | Inl e \<Rightarrow> empty_input)"

section \<open>The schemas\<close>

text \<open>
  \<^verbatim>\<open>z.string()\<close> and \<^verbatim>\<open>z.boolean()\<close> on a property that may be \<^verbatim>\<open>undefined\<close>:
  \<open>None\<close> is a validation issue.  The optional variants accept \<^verbatim>\<open>undefined\<close> (and
  nothing else that is not of the type: \<^verbatim>\<open>null\<close> is an issue).
\<close>

fun zod_string :: "json option \<Rightarrow> string option" where
  "zod_string (Some (JStr s)) = Some s"
| "zod_string v = None"

fun zod_string_optional :: "json option \<Rightarrow> string option option" where
  "zod_string_optional None = Some None"
| "zod_string_optional (Some (JStr s)) = Some (Some s)"
| "zod_string_optional v = None"

fun zod_boolean_optional :: "json option \<Rightarrow> bool option option" where
  "zod_boolean_optional None = Some None"
| "zod_boolean_optional (Some (JBool b)) = Some (Some b)"
| "zod_boolean_optional v = None"

text \<open>\<^verbatim>\<open>z.object\<close> accepts plain objects only: an array, \<^verbatim>\<open>null\<close> or a primitive is an issue.\<close>

fun zod_is_object :: "json \<Rightarrow> bool" where
  "zod_is_object (JObj kvs) = True"
| "zod_is_object v = False"

record CreateNoteInput =
  in_title :: string
  in_content :: string
  in_category :: "string option"
  in_published :: "bool option"

text \<open>\<^verbatim>\<open>createNoteSchema.parse\<close>: the typed input, or a \<^verbatim>\<open>ZodError\<close>.  Unknown keys are dropped.\<close>

definition createNoteSchema_parse :: "json \<Rightarrow> exn + CreateNoteInput" where
  "createNoteSchema_parse v =
     (if \<not> zod_is_object v then Inl ZodError
      else case zod_string (js_get v ''title'') of
        None \<Rightarrow> Inl ZodError
      | Some t \<Rightarrow>
      (case zod_string (js_get v ''content'') of
        None \<Rightarrow> Inl ZodError
      | Some c \<Rightarrow>
      (case zod_string_optional (js_get v ''category'') of
        None \<Rightarrow> Inl ZodError
      | Some cat \<Rightarrow>
      (case zod_boolean_optional (js_get v ''published'') of
        None \<Rightarrow> Inl ZodError
      | Some pub \<Rightarrow>
          Inr \<lparr> in_title = t, in_content = c, in_category = cat, in_published = pub \<rparr>))))"

record UpdateNoteInput =
  up_title :: "string option"
  up_content :: "string option"
  up_category :: "string option"
  up_published :: "bool option"

text \<open>
  \<^verbatim>\<open>updateNoteSchema.parse\<close>.  The handler drops the parsed object and goes on reading
  \<^verbatim>\<open>updateData\<close>; on the four fields it reads, the two agree once the parse has passed
  (each is \<^verbatim>\<open>undefined\<close> or of its type), so the model reads them from the parsed record.
\<close>

definition updateNoteSchema_parse :: "json \<Rightarrow> exn + UpdateNoteInput" where
  "updateNoteSchema_parse v =
     (if \<not> zod_is_object v then Inl ZodError
      else case zod_string_optional (js_get v ''title'') of
        None \<Rightarrow> Inl ZodError
      | Some t \<Rightarrow>
      (case zod_string_optional (js_get v ''content'') of
        None \<Rightarrow> Inl ZodError
      | Some c \<Rightarrow>
      (case zod_string_optional (js_get v ''category'') of
        None \<Rightarrow> Inl ZodError
      | Some cat \<Rightarrow>
      (case zod_boolean_optional (js_get v ''published'') of
        None \<Rightarrow> Inl ZodError
      | Some pub \<Rightarrow>
          Inr \<lparr> up_title = t, up_content = c, up_category = cat, up_published = pub \<rparr>))))"

section \<open>The handlers\<close>

text \<open>
  A handler takes the request and the table and returns the response and the table.  The
  body of its \<^verbatim>\<open>try\<close> returns \<open>Inr\<close>, or \<open>Inl\<close> of the exception it raised with the
  table as it was then; its \<^verbatim>\<open>catch\<close> maps the exception to an error envelope.
  \<^verbatim>\<open>crypto.randomUUID()\<close> and \<^verbatim>\<open>new Date().toISOString()\<close> are the arguments \<open>uuid\<close>
  and \<open>now\<close>.
\<close>

text \<open>\<^verbatim>\<open>a || b\<close> where \<open>a\<close> may be \<^verbatim>\<open>undefined\<close>.\<close>

definition js_or :: "json option \<Rightarrow> json \<Rightarrow> json" where
  "js_or a b = (case a of None \<Rightarrow> b | Some v \<Rightarrow> if truthy v then v else b)"

text \<open>The \<^verbatim>\<open>catch\<close> of \<^verbatim>\<open>createNote\<close> and of \<^verbatim>\<open>updateNote\<close> (the same code).\<close>

definition catch_write :: "bool \<Rightarrow> exn \<Rightarrow> response" where
  "catch_write isBatch error =
     (case error of
        ZodError \<Rightarrow> formatTRPCErrorResponse ''BAD_REQUEST'' ''Validation error'' 400 isBatch
      | OtherError message \<Rightarrow>
          if str_includes message ''UNIQUE constraint failed''
          then formatTRPCErrorResponse ''CONFLICT'' ''Note with that title already exists'' 409 isBatch
          else formatTRPCErrorResponse ''INTERNAL_SERVER_ERROR''
                 (if message \<noteq> [] then message else ''An unexpected error occurred'') 500 isBatch)"

text \<open>The \<^verbatim>\<open>catch\<close> of \<^verbatim>\<open>getNotes\<close>.\<close>

definition catch_getNotes :: "bool \<Rightarrow> exn \<Rightarrow> response" where
  "catch_getNotes isBatch error =
     (case error of
        ZodError \<Rightarrow> formatTRPCErrorResponse ''BAD_REQUEST'' ''Validation error'' 400 isBatch
      | OtherError message \<Rightarrow>
          formatTRPCErrorResponse ''INTERNAL_SERVER_ERROR''
            (if message \<noteq> [] then message else ''An unexpected error occurred'') 500 isBatch)"

text \<open>
  The \<^verbatim>\<open>catch\<close> of \<^verbatim>\<open>getNote\<close> and of \<^verbatim>\<open>deleteNote\<close>, which looks at the message
  only.
\<close>

definition catch_plain :: "bool \<Rightarrow> string \<Rightarrow> response" where
  "catch_plain isBatch message =
     formatTRPCErrorResponse ''INTERNAL_SERVER_ERROR''
       (if message \<noteq> [] then message else ''An unexpected error occurred'') 500 isBatch"

subsection \<open>createNote\<close>

text \<open>The row that the \<^verbatim>\<open>INSERT\<close> of \<^verbatim>\<open>createNote\<close> binds.\<close>

definition new_row :: "CreateNoteInput \<Rightarrow> string \<Rightarrow> string \<Rightarrow> row" where
  "new_row input uuid now =
     \<lparr> col_id = uuid,
       col_title = in_title input,
       col_content = in_content input,
       col_category = (case in_category input of
                         None \<Rightarrow> None
                       | Some c \<Rightarrow> if c \<noteq> [] then Some c else None),
       col_published = (if in_published input = Some True then 1 else 0),
       col_createdAt = now,
       col_updatedAt = now \<rparr>"

text \<open>Lines 274 to 306: the insert with its own \<^verbatim>\<open>catch\<close>, and the read back.\<close>

definition createNote_insert ::
  "bool \<Rightarrow> CreateNoteInput \<Rightarrow> string \<Rightarrow> string \<Rightarrow> store \<Rightarrow> (exn \<times> store) + (response \<times> store)" where
  "createNote_insert isBatch input uuid now db =
     (case sql_insert (new_row input uuid now) db of
        Inl message \<Rightarrow>
          if str_includes message ''UNIQUE constraint failed''
          then Inr (formatTRPCErrorResponse ''CONFLICT''
                      ''Note with that title already exists'' 409 isBatch, db)
          else Inl (OtherError message, db)
      | Inr db' \<Rightarrow>
          (case sql_one (select_by_id uuid db') of
             Inl message \<Rightarrow> Inl (OtherError message, db')
           | Inr r \<Rightarrow> Inr (formatTRPCResponse (CreatedNote (mapSqliteRow r)) isBatch, db')))"

definition createNote_try ::
  "host \<Rightarrow> request \<Rightarrow> string \<Rightarrow> string \<Rightarrow> store \<Rightarrow> (exn \<times> store) + (response \<times> store)" where
  "createNote_try h request uuid now db =
     (let isBatch = req_batch request in
      if req_method request \<noteq> ''POST''
      then Inr (formatTRPCErrorResponse ''METHOD_NOT_SUPPORTED'' ''Method not allowed'' 405 isBatch, db)
      else
        let data = parseInput h request in
        case (case js_get data ''input'' of
                None \<Rightarrow> None
              | Some v \<Rightarrow> if truthy v \<and> typeof_object v then Some v else None) of
          None \<Rightarrow>
            Inr (formatTRPCErrorResponse ''BAD_REQUEST'' ''Invalid request format'' 400 isBatch, db)
        | Some v \<Rightarrow>
            (case createNoteSchema_parse v of
               Inl e \<Rightarrow> Inl (e, db)
             | Inr input \<Rightarrow>
                 if titleExists (in_title input) db
                 then Inr (formatTRPCErrorResponse ''CONFLICT''
                             ''Note with that title already exists'' 409 isBatch, db)
                 else createNote_insert isBatch input uuid now db))"

definition createNote :: "host \<Rightarrow> request \<Rightarrow> string \<Rightarrow> string \<Rightarrow> store \<Rightarrow> response \<times> store" where
  "createNote h request uuid now db =
     (case createNote_try h request uuid now db of
        Inr r \<Rightarrow> r
      | Inl (error, db') \<Rightarrow> (catch_write (req_batch request) error, db'))"

subsection \<open>updateNote\<close>

text \<open>
  Line 352: \<^verbatim>\<open>!data.input || !data.input.params || !data.input.params.noteId\<close>; the
  \<^verbatim>\<open>noteId\<close> when the test lets the request pass.
\<close>

definition params_noteId :: "json \<Rightarrow> json option" where
  "params_noteId data =
     (let input = js_get data ''input''; params = member input ''params'';
          noteId = member params ''noteId''
      in if \<not> truthy_opt input \<or> \<not> truthy_opt params \<or> \<not> truthy_opt noteId then None
         else noteId)"

text \<open>
  Lines 379 to 394: whether the new title collides.  \<open>Inl\<close> is the error of
  \<^verbatim>\<open>currentNoteResult.one()\<close>.
\<close>

definition title_conflict :: "UpdateNoteInput \<Rightarrow> string \<Rightarrow> store \<Rightarrow> string + bool" where
  "title_conflict updateData k db =
     (case up_title updateData of
        None \<Rightarrow> Inr False
      | Some t \<Rightarrow>
          (case sql_one (map col_title (select_by_id k db)) of
             Inl message \<Rightarrow> Inl message
           | Inr currentTitle \<Rightarrow> Inr (t \<noteq> currentTitle \<and> titleExists t db)))"

text \<open>Lines 396 to 420: the assignments, \<^verbatim>\<open>updatedAt\<close> always last.\<close>

definition updateFields_of :: "UpdateNoteInput \<Rightarrow> string \<Rightarrow> assignment list" where
  "updateFields_of updateData now =
     (case up_title updateData of None \<Rightarrow> [] | Some t \<Rightarrow> [SetTitle t]) @
     (case up_content updateData of None \<Rightarrow> [] | Some c \<Rightarrow> [SetContent c]) @
     (case up_category updateData of None \<Rightarrow> [] | Some c \<Rightarrow> [SetCategory c]) @
     (case up_published updateData of None \<Rightarrow> [] | Some p \<Rightarrow> [SetPublished (if p then 1 else 0)]) @
     [SetUpdatedAt now]"

text \<open>Lines 424 to 437: the update and the read back.\<close>

definition updateNote_exec ::
  "bool \<Rightarrow> UpdateNoteInput \<Rightarrow> string \<Rightarrow> string \<Rightarrow> store \<Rightarrow> (exn \<times> store) + (response \<times> store)" where
  "updateNote_exec isBatch updateData k now db =
     (case sql_update (updateFields_of updateData now) k db of
        Inl message \<Rightarrow> Inl (OtherError message, db)
      | Inr db' \<Rightarrow>
          (case sql_one (select_by_id k db') of
             Inl message \<Rightarrow> Inl (OtherError message, db')
           | Inr r \<Rightarrow> Inr (formatTRPCResponse (OneNote (mapSqliteRow r)) isBatch, db')))"

definition updateNote_try ::
  "host \<Rightarrow> request \<Rightarrow> string \<Rightarrow> store \<Rightarrow> (exn \<times> store) + (response \<times> store)" where
  "updateNote_try h request now db =
     (let isBatch = req_batch request in
      if req_method request \<noteq> ''POST''
      then Inr (formatTRPCErrorResponse ''METHOD_NOT_SUPPORTED'' ''Method not allowed'' 405 isBatch, db)
      else
        let data = parseInput h request in
        case params_noteId data of
          None \<Rightarrow>
            Inr (formatTRPCErrorResponse ''BAD_REQUEST''
                   ''Invalid request format: missing noteId'' 400 isBatch, db)
        | Some noteId \<Rightarrow>
            (case updateNoteSchema_parse (js_or (member (js_get data ''input'') ''body'') (JObj [])) of
               Inl e \<Rightarrow> Inl (e, db)
             | Inr updateData \<Rightarrow>
                 (case sql_bind_id h noteId of
                    Inl message \<Rightarrow> Inl (OtherError message, db)
                  | Inr k \<Rightarrow>
                      if length (select_by_id k db) = 0
                      then Inr (formatTRPCErrorResponse ''NOT_FOUND''
                                  ''Note with that ID not found'' 404 isBatch, db)
                      else
                        (case title_conflict updateData k db of
                           Inl message \<Rightarrow> Inl (OtherError message, db)
                         | Inr True \<Rightarrow>
                             Inr (formatTRPCErrorResponse ''CONFLICT''
                                    ''Note with that title already exists'' 409 isBatch, db)
                         | Inr False \<Rightarrow> updateNote_exec isBatch updateData k now db))))"

definition updateNote :: "host \<Rightarrow> request \<Rightarrow> string \<Rightarrow> store \<Rightarrow> response \<times> store" where
  "updateNote h request now db =
     (case updateNote_try h request now db of
        Inr r \<Rightarrow> r
      | Inl (error, db') \<Rightarrow> (catch_write (req_batch request) error, db'))"

subsection \<open>deleteNote\<close>

text \<open>Line 573 (and 473): \<^verbatim>\<open>!data.input || !data.input.noteId\<close>.\<close>

definition input_noteId :: "json \<Rightarrow> json option" where
  "input_noteId data =
     (let input = js_get data ''input''; noteId = member input ''noteId''
      in if \<not> truthy_opt input \<or> \<not> truthy_opt noteId then None else noteId)"

definition deleteNote_try :: "host \<Rightarrow> request \<Rightarrow> store \<Rightarrow> (string \<times> store) + (response \<times> store)" where
  "deleteNote_try h request db =
     (let isBatch = req_batch request in
      if req_method request \<noteq> ''POST''
      then Inr (formatTRPCErrorResponse ''METHOD_NOT_SUPPORTED'' ''Method not allowed'' 405 isBatch, db)
      else
        let data = parseInput h request in
        case input_noteId data of
          None \<Rightarrow>
            Inr (formatTRPCErrorResponse ''BAD_REQUEST''
                   ''Invalid request format: missing noteId'' 400 isBatch, db)
        | Some noteId \<Rightarrow>
            (case sql_bind_id h noteId of
               Inl message \<Rightarrow> Inl (message, db)
             | Inr k \<Rightarrow>
                 if length (select_by_id k db) = 0
                 then Inr (formatTRPCErrorResponse ''NOT_FOUND''
                             ''Note with that ID not found'' 404 isBatch, db)
                 else Inr (formatTRPCResponse StatusOnly isBatch, sql_delete k db)))"

definition deleteNote :: "host \<Rightarrow> request \<Rightarrow> store \<Rightarrow> response \<times> store" where
  "deleteNote h request db =
     (case deleteNote_try h request db of
        Inr r \<Rightarrow> r
      | Inl (message, db') \<Rightarrow> (catch_plain (req_batch request) message, db'))"

subsection \<open>getNote and getNotes\<close>

text \<open>The two read handlers run no statement that writes: they return the response only.\<close>

definition getNote_try :: "host \<Rightarrow> request \<Rightarrow> store \<Rightarrow> string + response" where
  "getNote_try h request db =
     (let isBatch = req_batch request;
          data = parseInput h request
      in case input_noteId data of
           None \<Rightarrow>
             Inr (formatTRPCErrorResponse ''BAD_REQUEST''
                    ''Invalid request format: missing noteId'' 400 isBatch)
         | Some noteId \<Rightarrow>
             (case sql_bind_id h noteId of
                Inl message \<Rightarrow> Inl message
              | Inr k \<Rightarrow>
                  (case select_by_id k db of
                     [] \<Rightarrow> Inr (formatTRPCErrorResponse ''NOT_FOUND''
                                 ''Note with that ID not found'' 404 isBatch)
                   | r # _ \<Rightarrow> Inr (formatTRPCResponse (OneNote (mapSqliteRow r)) isBatch))))"

definition getNote :: "host \<Rightarrow> request \<Rightarrow> store \<Rightarrow> response" where
  "getNote h request db =
     (case getNote_try h request db of
        Inr r \<Rightarrow> r
      | Inl message \<Rightarrow> catch_plain (req_batch request) message)"

text \<open>
  \<^verbatim>\<open>(page - 1) * limit\<close> where both are integers and the arithmetic is exact (every
  operand and result within \<open>2^53\<close>); \<open>None\<close> otherwise.
\<close>

definition safe_integer :: "int \<Rightarrow> bool" where
  "safe_integer n = (\<bar>n\<bar> \<le> 2 ^ 53)"

definition js_offset :: "json \<Rightarrow> json \<Rightarrow> int option" where
  "js_offset page limit =
     (case page of
        JNum p \<Rightarrow>
          (case limit of
             JNum l \<Rightarrow>
               if safe_integer p \<and> safe_integer l \<and> safe_integer (p - 1) \<and> safe_integer ((p - 1) * l)
               then Some ((p - 1) * l) else None
           | _ \<Rightarrow> None)
      | _ \<Rightarrow> None)"

text \<open>
  \<^verbatim>\<open>SELECT * FROM notes ORDER BY createdAt DESC LIMIT ? OFFSET ?\<close> with \<^verbatim>\<open>limit\<close> and
  \<^verbatim>\<open>offset\<close> bound; outside exact integers the outcome is the host's.
\<close>

definition select_page :: "host \<Rightarrow> json \<Rightarrow> json \<Rightarrow> int option \<Rightarrow> store \<Rightarrow> string + row list" where
  "select_page h page limit offset db =
     (case offset of
        None \<Rightarrow> page_query_other h page limit db
      | Some k \<Rightarrow>
          (case limit of
             JNum l \<Rightarrow> Inr (sql_limit_offset l k (order_by_createdAt_desc db))
           | _ \<Rightarrow> page_query_other h page limit db))"

definition getNotes_try :: "host \<Rightarrow> request \<Rightarrow> store \<Rightarrow> exn + response" where
  "getNotes_try h request db =
     (let isBatch = req_batch request;
          data = parseInput h request;
          page = js_or (member (js_get data ''input'') ''page'') (JNum 1);
          limit = js_or (member (js_get data ''input'') ''limit'') (JNum 10);
          offset = js_offset page limit
      in case select_page h page limit offset db of
           Inl message \<Rightarrow> Inl (OtherError message)
         | Inr rows \<Rightarrow>
             (let notes = map mapSqliteRow rows
              in Inr (formatTRPCResponse (NoteList (length notes) notes) isBatch)))"

definition getNotes :: "host \<Rightarrow> request \<Rightarrow> store \<Rightarrow> response" where
  "getNotes h request db =
     (case getNotes_try h request db of
        Inr r \<Rightarrow> r
      | Inl error \<Rightarrow> catch_getNotes (req_batch request) error)"

subsection \<open>The router\<close>

text \<open>\<^verbatim>\<open>NotesDO.fetch\<close>.  No handler raises, so the router's own \<^verbatim>\<open>catch\<close> is never entered.\<close>

definition fetch :: "host \<Rightarrow> request \<Rightarrow> string \<Rightarrow> string \<Rightarrow> store \<Rightarrow> response \<times> store" where
  "fetch h request uuid now db =
     (if req_method request = ''OPTIONS'' then (Preflight, db)
      else
        let path = req_pathname request; isBatch = req_batch request in
        if path = ''/api/trpc/createNote'' then createNote h request uuid now db
        else if path = ''/api/trpc/updateNote'' then updateNote h request now db
        else if path = ''/api/trpc/deleteNote'' then deleteNote h request db
        else if path = ''/api/trpc/getNote'' then (getNote h request db, db)
        else if path = ''/api/trpc/getNotes'' then (getNotes h request db, db)
        else if path = ''/api/trpc/getHello'' then (formatTRPCResponse Welcome isBatch, db)
        else (NotFoundText, db))"

section \<open>Properties stated of the program\<close>

text \<open>
  The table's constraints \<^verbatim>\<open>id TEXT PRIMARY KEY\<close> and \<^verbatim>\<open>title TEXT UNIQUE\<close> as a predicate
  on the table.
\<close>

definition wf_store :: "store \<Rightarrow> bool" where
  "wf_store db = (distinct (map col_id db) \<and> distinct (map col_title db))"

text \<open>
  A sequence of requests served by the router one after the other, each with the
  identifier and the time the runtime hands out for it; the table afterwards.
\<close>

fun serve :: "host \<Rightarrow> (request \<times> string \<times> string) list \<Rightarrow> store \<Rightarrow> store" where
  "serve h [] db = db"
| "serve h ((request, uuid, now) # rest) db = serve h rest (snd (fetch h request uuid now db))"

text \<open>
  The decoder's rule in the words of the specification (section 4.2), for comparison with
  \<open>wrap_raw\<close>: in batch mode a raw value keyed by \<^verbatim>\<open>"0"\<close> (an object with that key, or
  a non-empty array, whose first element JavaScript reads under that key) unwraps to that
  key's value; otherwise an object with a field \<^verbatim>\<open>input\<close> is returned as it is;
  anything else is wrapped into \<^verbatim>\<open>{ input: value }\<close>.
\<close>

definition spec_payload :: "bool \<Rightarrow> json \<Rightarrow> json" where
  "spec_payload batch raw =
     (case raw of
        JObj kvs \<Rightarrow>
          (case (if batch then map_of kvs ''0'' else None) of
             Some v \<Rightarrow> JObj [(''input'', v)]
           | None \<Rightarrow> if ''input'' \<in> fst ` set kvs then raw else JObj [(''input'', raw)])
      | JArr xs \<Rightarrow>
          (case (if batch then xs else []) of
             x # _ \<Rightarrow> JObj [(''input'', x)]
           | [] \<Rightarrow> JObj [(''input'', raw)])
      | _ \<Rightarrow> JObj [(''input'', raw)])"

text \<open>The code of an error envelope; \<open>None\<close> for any other response.\<close>

fun error_code :: "response \<Rightarrow> string option" where
  "error_code (Failure code message status isBatch) = Some code"
| "error_code r = None"

text \<open>
  The page of the specification (section 8): the slice \<open>[(P-1)*L, P*L)\<close> of a list, for
  comparison with \<open>sql_limit_offset\<close>.
\<close>

definition spec_page :: "int \<Rightarrow> int \<Rightarrow> 'a list \<Rightarrow> 'a list" where
  "spec_page L P xs = take (nat (P * L) - nat ((P - 1) * L)) (drop (nat ((P - 1) * L)) xs)"

text \<open>
  The row after an update in the words of the specification (section 4.4): every field
  present in the payload takes the payload's value, every absent field keeps its value,
  \<^verbatim>\<open>updatedAt\<close> is refreshed; \<^verbatim>\<open>id\<close> and \<^verbatim>\<open>createdAt\<close> stay.  For comparison with
  what \<open>sql_update\<close> does with \<open>updateFields_of\<close>.
\<close>

definition spec_updated :: "UpdateNoteInput \<Rightarrow> string \<Rightarrow> row \<Rightarrow> row" where
  "spec_updated upd now r =
     \<lparr> col_id = col_id r,
       col_title = (case up_title upd of None \<Rightarrow> col_title r | Some t \<Rightarrow> t),
       col_content = (case up_content upd of None \<Rightarrow> col_content r | Some c \<Rightarrow> c),
       col_category = (case up_category upd of None \<Rightarrow> col_category r | Some c \<Rightarrow> Some c),
       col_published = (case up_published upd of None \<Rightarrow> col_published r
                        | Some p \<Rightarrow> if p then 1 else 0),
       col_createdAt = col_createdAt r,
       col_updatedAt = now \<rparr>"

subsection \<open>Fixtures for concrete runs\<close>

text \<open>
  A host whose \<^verbatim>\<open>JSON.parse\<close> knows the given texts, whose binding refuses every
  \<^verbatim>\<open>noteId\<close> that is not a string and whose page query refuses every non-integer.
\<close>

definition test_host :: "(string \<times> json) list \<Rightarrow> host" where
  "test_host table =
     \<lparr> json_parse = map_of table,
       bind_other = (\<lambda>v. Inl ''Wrong type for parameter binding''),
       page_query_other = (\<lambda>page limit db. Inl ''datatype mismatch'') \<rparr>"

text \<open>A string in double quotes, for JSON texts.\<close>

definition q :: "string \<Rightarrow> string" where
  "q s = CHR 0x22 # s @ [CHR 0x22]"

definition post_json :: "string \<Rightarrow> string \<Rightarrow> request" where
  "post_json path text =
     \<lparr> req_method = ''POST'', req_pathname = path, req_batch = False, req_input = None,
       req_content_type = Some ''application/json'', req_body = text \<rparr>"

definition get_input :: "string \<Rightarrow> string \<Rightarrow> request" where
  "get_input path text =
     \<lparr> req_method = ''GET'', req_pathname = path, req_batch = False, req_input = Some text,
       req_content_type = None, req_body = [] \<rparr>"

text \<open>\<^verbatim>\<open>{"title":"A","content":"x"}\<close> and its value.\<close>

definition text_A :: string where
  "text_A = ''{'' @ q ''title'' @ '':'' @ q ''A'' @ '','' @ q ''content'' @ '':'' @ q ''x'' @ ''}''"

definition json_A :: json where
  "json_A = JObj [(''title'', JStr ''A''), (''content'', JStr ''x'')]"

text \<open>\<^verbatim>\<open>{"0":"first","input":"whole"}\<close> and its value.\<close>

definition text_batch :: string where
  "text_batch = ''{'' @ q ''0'' @ '':'' @ q ''first'' @ '','' @ q ''input'' @ '':'' @ q ''whole'' @ ''}''"

definition json_batch :: json where
  "json_batch = JObj [(''0'', JStr ''first''), (''input'', JStr ''whole'')]"

text \<open>\<^verbatim>\<open>{"noteId":"missing"}\<close> and its value.\<close>

definition text_missing :: string where
  "text_missing = ''{'' @ q ''noteId'' @ '':'' @ q ''missing'' @ ''}''"

definition json_missing :: json where
  "json_missing = JObj [(''noteId'', JStr ''missing'')]"

text \<open>A request with another method that carries a payload in the query and in the body.\<close>

definition put_request :: "string \<Rightarrow> string \<Rightarrow> request" where
  "put_request path text =
     \<lparr> req_method = ''PUT'', req_pathname = path, req_batch = False, req_input = Some text,
       req_content_type = Some ''application/json'', req_body = text \<rparr>"

text \<open>The typed input of \<open>json_A\<close>, and the row it makes.\<close>

definition input_A :: CreateNoteInput where
  "input_A = \<lparr> in_title = ''A'', in_content = ''x'', in_category = None, in_published = None \<rparr>"

definition row_A :: row where
  "row_A = \<lparr> col_id = ''id-1'', col_title = ''A'', col_content = ''x'', col_category = None,
             col_published = 0, col_createdAt = ''2024-01-01T00:00:00.000Z'',
             col_updatedAt = ''2024-01-01T00:00:00.000Z'' \<rparr>"

text \<open>\<^verbatim>\<open>{"limit":-1}\<close>, \<^verbatim>\<open>{"limit":1,"page":2}\<close> and \<^verbatim>\<open>{"noteId":"id-1"}\<close>.\<close>

definition text_neg :: string where
  "text_neg = ''{'' @ q ''limit'' @ '':-1}''"

definition json_neg :: json where
  "json_neg = JObj [(''limit'', JNum (- 1))]"

definition text_page :: string where
  "text_page = ''{'' @ q ''limit'' @ '':1,'' @ q ''page'' @ '':2}''"

definition json_page :: json where
  "json_page = JObj [(''limit'', JNum 1), (''page'', JNum 2)]"

definition text_get1 :: string where
  "text_get1 = ''{'' @ q ''noteId'' @ '':'' @ q ''id-1'' @ ''}''"

definition json_get1 :: json where
  "json_get1 = JObj [(''noteId'', JStr ''id-1'')]"

text \<open>A second, newer row.\<close>

definition row_B :: row where
  "row_B = \<lparr> col_id = ''id-2'', col_title = ''B'', col_content = ''y'', col_category = Some ''work'',
             col_published = 1, col_createdAt = ''2024-01-02T00:00:00.000Z'',
             col_updatedAt = ''2024-01-02T00:00:00.000Z'' \<rparr>"

text \<open>
  \<^verbatim>\<open>{"params":{"noteId":"id-1"},"body":{"title":"B"}}\<close> and
  \<^verbatim>\<open>{"params":{"noteId":"id-1"}}\<close>.
\<close>

definition text_retitle :: string where
  "text_retitle = ''{'' @ q ''params'' @ '':{'' @ q ''noteId'' @ '':'' @ q ''id-1'' @ ''},'' @
                  q ''body'' @ '':{'' @ q ''title'' @ '':'' @ q ''B'' @ ''}}''"

definition json_retitle :: json where
  "json_retitle = JObj [(''params'', JObj [(''noteId'', JStr ''id-1'')]),
                        (''body'', JObj [(''title'', JStr ''B'')])]"

definition text_touch :: string where
  "text_touch = ''{'' @ q ''params'' @ '':{'' @ q ''noteId'' @ '':'' @ q ''id-1'' @ ''}}''"

definition json_touch :: json where
  "json_touch = JObj [(''params'', JObj [(''noteId'', JStr ''id-1'')])]"

text \<open>\<^verbatim>\<open>{"limit":"abc"}\<close> and its value.\<close>

definition text_abc :: string where
  "text_abc = ''{'' @ q ''limit'' @ '':'' @ q ''abc'' @ ''}''"

definition json_abc :: json where
  "json_abc = JObj [(''limit'', JStr ''abc'')]"

text \<open>\<^verbatim>\<open>{"params":{"noteId":"id-1"},"body":{"title":"A"}}\<close> and its value.\<close>

definition text_keep :: string where
  "text_keep = ''{'' @ q ''params'' @ '':{'' @ q ''noteId'' @ '':'' @ q ''id-1'' @ ''},'' @
               q ''body'' @ '':{'' @ q ''title'' @ '':'' @ q ''A'' @ ''}}''"

definition json_keep :: json where
  "json_keep = JObj [(''params'', JObj [(''noteId'', JStr ''id-1'')]),
                     (''body'', JObj [(''title'', JStr ''A'')])]"

text \<open>
  \<^verbatim>\<open>{"params":{"noteId":"id-1"},"body":{"title":"C","content":"z","category":"home","published":true}}\<close>
  and its value.
\<close>

definition text_edit :: string where
  "text_edit = ''{'' @ q ''params'' @ '':{'' @ q ''noteId'' @ '':'' @ q ''id-1'' @ ''},'' @
               q ''body'' @ '':{'' @ q ''title'' @ '':'' @ q ''C'' @ '','' @
               q ''content'' @ '':'' @ q ''z'' @ '','' @ q ''category'' @ '':'' @ q ''home'' @ '','' @
               q ''published'' @ '':true}}''"

definition json_edit :: json where
  "json_edit = JObj [(''params'', JObj [(''noteId'', JStr ''id-1'')]),
                     (''body'', JObj [(''title'', JStr ''C''), (''content'', JStr ''z''),
                                      (''category'', JStr ''home''), (''published'', JBool True)])]"

section \<open>The decoder\<close>

lemma parseInput_raises:
  assumes "(req_method request = ''GET'' \<and>
              (\<exists>s. req_input request = Some s \<and> s \<noteq> [] \<and> json_parse h s = None))
         \<or> (req_method request = ''POST'' \<and>
              \<not> str_includes (case req_content_type request of None \<Rightarrow> [] | Some c \<Rightarrow> c)
                   ''application/json'')
         \<or> (req_method request = ''POST'' \<and> json_parse h (req_body request) = None)
         \<or> (req_method request \<noteq> ''GET'' \<and> req_method request \<noteq> ''POST'')"
  shows "isl (parseInput_try h request)"
  using assms by (auto simp: parseInput_try_def Let_def split: option.splits)

lemma parseInput_caught: "isl (parseInput_try h request) \<Longrightarrow> parseInput h request = empty_input"
  by (auto simp: parseInput_def split: sum.splits)

lemma parseInput_decoded:
  assumes "(req_method request = ''GET'' \<and> req_input request = Some s \<and> s \<noteq> [] \<and>
              json_parse h s = Some rawData)
         \<or> (req_method request = ''POST'' \<and>
              str_includes (case req_content_type request of None \<Rightarrow> [] | Some c \<Rightarrow> c)
                ''application/json'' \<and>
              json_parse h (req_body request) = Some rawData)"
  shows "parseInput h request = wrap_raw (req_batch request) rawData"
  using assms by (auto simp: parseInput_def parseInput_try_def Let_def split: option.splits)

lemma wrap_raw_spec: "wrap_raw b raw = spec_payload b raw"
  by (cases raw)
     (auto simp: wrap_raw_def spec_payload_def map_of_eq_None_iff split: option.splits list.splits)

lemma createNote_empty_input:
  "req_method request = ''POST'' \<Longrightarrow> parseInput h request = empty_input \<Longrightarrow>
   createNote h request uuid now db =
     (formatTRPCErrorResponse ''BAD_REQUEST'' ''Validation error'' 400 (req_batch request), db)"
  by (simp add: createNote_def createNote_try_def empty_input_def createNoteSchema_parse_def
        catch_write_def)

lemma getNote_empty_input:
  "parseInput h request = empty_input \<Longrightarrow>
   getNote h request db =
     formatTRPCErrorResponse ''BAD_REQUEST'' ''Invalid request format: missing noteId'' 400
       (req_batch request)"
  by (simp add: getNote_def getNote_try_def input_noteId_def empty_input_def)

lemma getNotes_empty_input:
  "parseInput h request = empty_input \<Longrightarrow>
   getNotes h request db =
     formatTRPCResponse
       (NoteList (length (take 10 (order_by_createdAt_desc db)))
          (map mapSqliteRow (take 10 (order_by_createdAt_desc db))))
       (req_batch request)"
  by (simp add: getNotes_def getNotes_try_def empty_input_def js_or_def js_offset_def
        safe_integer_def select_page_def sql_limit_offset_def)

lemma includes_json: "str_includes ''application/json'' ''application/json''"
  by (simp add: str_includes_def)

text \<open>
  C6.  Whenever the decoder's \<^verbatim>\<open>try\<close> raises (the \<^verbatim>\<open>input\<close> query parameter of a GET or
  the body of a POST does not parse as JSON, the declared content type of a POST is not
  JSON, or the method is neither GET nor POST), \<^verbatim>\<open>parseInput\<close> returns the empty input
  payload \<^verbatim>\<open>{ input: {} }\<close> and no error; and a \<^verbatim>\<open>createNote\<close> POST with such a body is
  answered with \<^verbatim>\<open>BAD_REQUEST\<close>, status 400, message "Validation error", the table
  unchanged.
\<close>

theorem C6_decode_failure_yields_empty_input:
  assumes "(req_method request = ''GET'' \<and>
              (\<exists>s. req_input request = Some s \<and> s \<noteq> [] \<and> json_parse h s = None))
         \<or> (req_method request = ''POST'' \<and>
              \<not> str_includes (case req_content_type request of None \<Rightarrow> [] | Some c \<Rightarrow> c)
                   ''application/json'')
         \<or> (req_method request = ''POST'' \<and> json_parse h (req_body request) = None)
         \<or> (req_method request \<noteq> ''GET'' \<and> req_method request \<noteq> ''POST'')"
  shows "isl (parseInput_try h request) \<and>
         parseInput h request = empty_input \<and>
         (req_method request = ''POST'' \<longrightarrow>
            createNote h request uuid now db =
              (formatTRPCErrorResponse ''BAD_REQUEST'' ''Validation error'' 400
                 (req_batch request), db))"
proof -
  have raised: "isl (parseInput_try h request)"
    using assms by (rule parseInput_raises)
  then have empty: "parseInput h request = empty_input"
    by (rule parseInput_caught)
  show ?thesis
    using raised empty by (simp add: createNote_empty_input)
qed

theorem C6_witness:
  "json_parse (test_host []) ''{oops'' = None \<and>
   parseInput (test_host []) (post_json ''/api/trpc/createNote'' ''{oops'') = empty_input \<and>
   createNote (test_host []) (post_json ''/api/trpc/createNote'' ''{oops'') ''id-1''
     ''2024-01-01T00:00:00.000Z'' [] =
     (Failure ''BAD_REQUEST'' ''Validation error'' 400 False, [])"
  using C6_decode_failure_yields_empty_input
          [of "post_json ''/api/trpc/createNote'' ''{oops''" "test_host []" "''id-1''"
              "''2024-01-01T00:00:00.000Z''" "[]"]
  by (simp add: test_host_def post_json_def formatTRPCErrorResponse_def)

text \<open>
  C7.  When the raw value decodes (the \<^verbatim>\<open>input\<close> parameter of a GET, or the JSON body of
  a POST), the payload is what the specification's rule gives: in batch mode a value
  with a defined key \<^verbatim>\<open>"0"\<close> (an object with that key, a non-empty array) becomes
  \<^verbatim>\<open>{ input: value["0"] }\<close>, also when it has a field \<^verbatim>\<open>input\<close>; otherwise an object
  with a field \<^verbatim>\<open>input\<close> is returned as it is; otherwise the value (an object without
  that field, an array, a primitive) is wrapped into \<^verbatim>\<open>{ input: value }\<close>.
\<close>

theorem C7_decoded_payload:
  assumes "(req_method request = ''GET'' \<and> req_input request = Some s \<and> s \<noteq> [] \<and>
              json_parse h s = Some rawData)
         \<or> (req_method request = ''POST'' \<and>
              str_includes (case req_content_type request of None \<Rightarrow> [] | Some c \<Rightarrow> c)
                ''application/json'' \<and>
              json_parse h (req_body request) = Some rawData)"
  shows "parseInput h request = spec_payload (req_batch request) rawData \<and>
         (req_batch request \<and> rawData = JObj kvs \<and> map_of kvs ''0'' = Some v \<longrightarrow>
            parseInput h request = JObj [(''input'', v)]) \<and>
         (req_batch request \<and> rawData = JArr (x # xs) \<longrightarrow>
            parseInput h request = JObj [(''input'', x)]) \<and>
         ((\<not> req_batch request \<or> map_of kvs ''0'' = None) \<and> rawData = JObj kvs \<and>
          map_of kvs ''input'' = Some v \<longrightarrow>
            parseInput h request = rawData) \<and>
         ((\<not> req_batch request \<or> map_of kvs ''0'' = None) \<and> rawData = JObj kvs \<and>
          map_of kvs ''input'' = None \<longrightarrow>
            parseInput h request = JObj [(''input'', rawData)]) \<and>
         ((\<not> req_batch request \<or> ys = []) \<and> rawData = JArr ys \<longrightarrow>
            parseInput h request = JObj [(''input'', rawData)]) \<and>
         (rawData \<in> {JNull, JBool b, JNum n, JNumOther t, JStr t} \<longrightarrow>
            parseInput h request = JObj [(''input'', rawData)])"
proof -
  have "parseInput h request = wrap_raw (req_batch request) rawData"
    using assms by (rule parseInput_decoded)
  then show ?thesis
    by (auto simp: wrap_raw_spec [symmetric] wrap_raw_def)
qed

theorem C7_witness:
  "parseInput (test_host [(text_batch, json_batch)])
     ((post_json ''/api/trpc/getNote'' text_batch)\<lparr>req_batch := True\<rparr>) =
   JObj [(''input'', JStr ''first'')] \<and>
   parseInput (test_host [(text_batch, json_batch)]) (post_json ''/api/trpc/getNote'' text_batch) =
   json_batch"
  using C7_decoded_payload
          [of "(post_json ''/api/trpc/getNote'' text_batch)\<lparr>req_batch := True\<rparr>" text_batch
              "test_host [(text_batch, json_batch)]" json_batch
              "[(''0'', JStr ''first''), (''input'', JStr ''whole'')]" "JStr ''first''"]
        C7_decoded_payload
          [of "post_json ''/api/trpc/getNote'' text_batch" text_batch
              "test_host [(text_batch, json_batch)]" json_batch
              "[(''0'', JStr ''first''), (''input'', JStr ''whole'')]" "JStr ''whole''"]
  by (simp add: test_host_def post_json_def includes_json json_batch_def spec_payload_def)

section \<open>The table's constraints are kept\<close>

lemma assign_id [simp]: "col_id (assign a r) = col_id r"
  by (cases a) simp_all

lemma fold_assign_id [simp]: "col_id (fold assign as r) = col_id r"
  by (induction as arbitrary: r) simp_all

lemma assign_createdAt [simp]: "col_createdAt (assign a r) = col_createdAt r"
  by (cases a) simp_all

lemma fold_assign_createdAt [simp]: "col_createdAt (fold assign as r) = col_createdAt r"
  by (induction as arbitrary: r) simp_all

lemma sql_insert_wf: "wf_store db \<Longrightarrow> sql_insert r db = Inr db' \<Longrightarrow> wf_store db'"
  by (auto simp: wf_store_def sql_insert_def split: if_splits)

lemma sql_update_ids: "sql_update fs k db = Inr db' \<Longrightarrow> map col_id db' = map col_id db"
  by (auto simp: sql_update_def Let_def split: if_splits)

lemma sql_update_wf: "wf_store db \<Longrightarrow> sql_update fs k db = Inr db' \<Longrightarrow> wf_store db'"
  using sql_update_ids[of fs k db db']
  by (auto simp: wf_store_def sql_update_def Let_def split: if_splits)

lemma sql_delete_wf: "wf_store db \<Longrightarrow> wf_store (sql_delete k db)"
  by (simp add: wf_store_def sql_delete_def distinct_map_filter)

lemma createNote_insert_store:
  "createNote_insert b input uuid now db = Inr (resp, db') \<Longrightarrow> db' = db \<or> sql_insert (new_row input uuid now) db = Inr db'"
  by (auto simp: createNote_insert_def split: sum.splits if_splits)

lemma createNote_insert_store_exn:
  "createNote_insert b input uuid now db = Inl (e, db') \<Longrightarrow> db' = db \<or> sql_insert (new_row input uuid now) db = Inr db'"
  by (auto simp: createNote_insert_def split: sum.splits if_splits)

lemma createNote_store:
  "snd (createNote h request uuid now db) = db \<or>
   (\<exists>input. sql_insert (new_row input uuid now) db = Inr (snd (createNote h request uuid now db)))"
  unfolding createNote_def createNote_try_def Let_def
  by (auto split: sum.splits if_splits option.splits prod.splits
           dest: createNote_insert_store createNote_insert_store_exn)

lemma createNote_wf: "wf_store db \<Longrightarrow> wf_store (snd (createNote h request uuid now db))"
  using createNote_store[of h request uuid now db] by (auto dest: sql_insert_wf)

lemma updateNote_exec_store:
  "updateNote_exec b upd k now db = Inr (resp, db') \<Longrightarrow> sql_update (updateFields_of upd now) k db = Inr db'"
  by (auto simp: updateNote_exec_def split: sum.splits)

lemma updateNote_exec_store_exn:
  "updateNote_exec b upd k now db = Inl (e, db') \<Longrightarrow> db' = db \<or> sql_update (updateFields_of upd now) k db = Inr db'"
  by (auto simp: updateNote_exec_def split: sum.splits)

lemma updateNote_store:
  "snd (updateNote h request now db) = db \<or>
   (\<exists>fs k. sql_update fs k db = Inr (snd (updateNote h request now db)))"
  unfolding updateNote_def updateNote_try_def Let_def
  by (auto split: sum.splits if_splits option.splits prod.splits bool.splits
           dest: updateNote_exec_store updateNote_exec_store_exn)

lemma updateNote_wf: "wf_store db \<Longrightarrow> wf_store (snd (updateNote h request now db))"
  using updateNote_store[of h request now db] by (auto dest: sql_update_wf)

lemma deleteNote_store:
  "snd (deleteNote h request db) = db \<or> (\<exists>k. snd (deleteNote h request db) = sql_delete k db)"
  unfolding deleteNote_def deleteNote_try_def Let_def
  by (auto split: sum.splits if_splits option.splits prod.splits)

lemma deleteNote_wf: "wf_store db \<Longrightarrow> wf_store (snd (deleteNote h request db))"
  using deleteNote_store[of h request db] by (auto dest: sql_delete_wf)

lemma fetch_wf: "wf_store db \<Longrightarrow> wf_store (snd (fetch h request uuid now db))"
  by (simp add: fetch_def Let_def createNote_wf updateNote_wf deleteNote_wf)


lemma serve_wf: "wf_store db \<Longrightarrow> wf_store (serve h calls db)"
  by (induction h calls db rule: serve.induct) (simp_all add: fetch_wf)

lemma titleExists_iff: "titleExists t db \<longleftrightarrow> t \<in> col_title ` set db"
  by (auto simp: titleExists_def filter_empty_conv)

lemma createNote_conflict:
  "req_method request = ''POST'' \<Longrightarrow> js_get (parseInput h request) ''input'' = Some v \<Longrightarrow>
   createNoteSchema_parse v = Inr input \<Longrightarrow> in_title input \<in> col_title ` set db \<Longrightarrow>
   createNote h request uuid now db =
     (formatTRPCErrorResponse ''CONFLICT'' ''Note with that title already exists'' 409 (req_batch request), db)"
  by (cases v) (auto simp: createNote_def createNote_try_def Let_def titleExists_iff createNoteSchema_parse_def)

lemma includes_unique_id: "str_includes ''UNIQUE constraint failed: notes.id'' ''UNIQUE constraint failed''"
  unfolding str_includes_def by (rule prefix_imp_sublist) simp

lemma includes_unique_title: "str_includes ''UNIQUE constraint failed: notes.title'' ''UNIQUE constraint failed''"
  unfolding str_includes_def by (rule prefix_imp_sublist) simp

lemma createNote_insert_conflict:
  "in_title input \<in> col_title ` set db \<Longrightarrow>
   createNote_insert isBatch input uuid now db =
     Inr (formatTRPCErrorResponse ''CONFLICT'' ''Note with that title already exists'' 409 isBatch, db)"
  by (auto simp: createNote_insert_def sql_insert_def new_row_def includes_unique_id includes_unique_title)

lemma sql_insert_select:
  "sql_insert r db = Inr db' \<Longrightarrow> db' = db @ [r] \<and> select_by_id (col_id r) db' = [r]"
proof -
  assume ins: "sql_insert r db = Inr db'"
  then have fresh: "col_id r \<notin> col_id ` set db" and db': "db' = db @ [r]"
    by (auto simp: sql_insert_def split: if_splits)
  from fresh have "filter (\<lambda>x. col_id x = col_id r) db = []"
    by (metis (mono_tags, lifting) filter_False imageI)
  with db' show ?thesis
    by (simp add: select_by_id_def)
qed

lemma createNote_insert_error_store:
  "createNote_insert b input uuid now db = Inl (e, db') \<Longrightarrow> db' = db"
  unfolding createNote_insert_def
  by (auto split: sum.splits if_splits dest!: sql_insert_select simp: new_row_def)

lemma createNote_insert_failure_store:
  "createNote_insert b input uuid now db = Inr (resp, db') \<Longrightarrow> error_code resp \<noteq> None \<Longrightarrow> db' = db"
  unfolding createNote_insert_def
  by (auto split: sum.splits if_splits simp: formatTRPCResponse_def)

lemma createNote_error_store:
  "error_code (fst (createNote h request uuid now db)) \<noteq> None \<Longrightarrow>
   snd (createNote h request uuid now db) = db"
  unfolding createNote_def createNote_try_def Let_def
  by (auto split: sum.splits if_splits option.splits prod.splits
           dest: createNote_insert_error_store createNote_insert_failure_store)

lemma filter_id_fresh: "k \<notin> col_id ` set db \<Longrightarrow> filter (\<lambda>x. col_id x = k) db = []"
  by (metis (mono_tags, lifting) filter_False imageI)

lemma select_by_id_distinct:
  "distinct (map col_id db) \<Longrightarrow> length (select_by_id k db) \<le> 1"
  unfolding select_by_id_def
  by (induction db) (auto simp: filter_id_fresh)

lemma select_by_id_one:
  "distinct (map col_id db) \<Longrightarrow> select_by_id k db \<noteq> [] \<Longrightarrow> \<exists>r. select_by_id k db = [r]"
  using select_by_id_distinct[of db k]
  by (cases "select_by_id k db") auto

lemma select_by_id_update:
  "sql_update fs k db = Inr db' \<Longrightarrow> select_by_id k db' = map (fold assign fs) (select_by_id k db)"
  unfolding sql_update_def select_by_id_def Let_def
  by (auto split: if_splits simp: filter_map comp_def intro!: map_cong filter_cong)

lemma updateNote_exec_error_store:
  "distinct (map col_id db) \<Longrightarrow> select_by_id k db \<noteq> [] \<Longrightarrow>
   updateNote_exec b upd k now db = Inl (e, db') \<Longrightarrow> db' = db"
  unfolding updateNote_exec_def
  by (auto split: sum.splits dest!: select_by_id_update dest: select_by_id_one)

lemma updateNote_exec_failure_store:
  "updateNote_exec b upd k now db = Inr (resp, db') \<Longrightarrow> error_code resp \<noteq> None \<Longrightarrow> db' = db"
  unfolding updateNote_exec_def
  by (auto split: sum.splits simp: formatTRPCResponse_def)

lemma updateNote_error_store:
  "wf_store db \<Longrightarrow> error_code (fst (updateNote h request now db)) \<noteq> None \<Longrightarrow>
   snd (updateNote h request now db) = db"
  unfolding updateNote_def updateNote_try_def Let_def wf_store_def
  by (auto split: sum.splits if_splits option.splits prod.splits bool.splits
           dest: updateNote_exec_error_store updateNote_exec_failure_store)

lemma deleteNote_error_store:
  "error_code (fst (deleteNote h request db)) \<noteq> None \<Longrightarrow> snd (deleteNote h request db) = db"
  unfolding deleteNote_def deleteNote_try_def Let_def
  by (auto split: sum.splits if_splits option.splits prod.splits simp: formatTRPCResponse_def)


subsection \<open>Concrete runs\<close>

lemma post_json_sel [simp]:
  "req_method (post_json p t) = ''POST''" "req_batch (post_json p t) = False"
  "req_body (post_json p t) = t" "req_content_type (post_json p t) = Some ''application/json''"
  "req_pathname (post_json p t) = p" "req_input (post_json p t) = None"
  by (simp_all add: post_json_def)

lemma get_input_sel [simp]:
  "req_method (get_input p t) = ''GET''" "req_batch (get_input p t) = False"
  "req_body (get_input p t) = []" "req_content_type (get_input p t) = None"
  "req_pathname (get_input p t) = p" "req_input (get_input p t) = Some t"
  by (simp_all add: get_input_def)

lemma test_host_sel [simp]:
  "json_parse (test_host table) = map_of table"
  "bind_other (test_host table) v = Inl ''Wrong type for parameter binding''"
  "page_query_other (test_host table) page limit db = Inl ''datatype mismatch''"
  by (simp_all add: test_host_def)

lemma parseInput_post_json:
  "map_of table t = Some j \<Longrightarrow> parseInput (test_host table) (post_json p t) = wrap_raw False j"
  by (simp add: parseInput_def parseInput_try_def includes_json)

lemma parseInput_get_input:
  "t \<noteq> [] \<Longrightarrow> map_of table t = Some j \<Longrightarrow>
   parseInput (test_host table) (get_input p t) = wrap_raw False j"
  by (simp add: parseInput_def parseInput_try_def)

lemma wrap_json_A: "wrap_raw False json_A = JObj [(''input'', json_A)]"
  by (simp add: wrap_raw_def json_A_def)

lemma parse_json_A: "createNoteSchema_parse json_A = Inr input_A"
  by (simp add: createNoteSchema_parse_def json_A_def input_A_def)

lemma truthy_json_A: "truthy json_A \<and> typeof_object json_A"
  by (simp add: json_A_def)

lemma new_row_A: "new_row input_A ''id-1'' ''2024-01-01T00:00:00.000Z'' = row_A"
  by (simp add: new_row_def input_A_def row_A_def)

lemma create_A_empty:
  "createNote (test_host [(text_A, json_A)]) (post_json p text_A) ''id-1'' ''2024-01-01T00:00:00.000Z'' [] =
     (Result (CreatedNote (mapSqliteRow row_A)) False, [row_A])"
  by (simp add: createNote_def createNote_try_def parseInput_post_json wrap_json_A parse_json_A
        truthy_json_A titleExists_def createNote_insert_def new_row_A sql_insert_def
        select_by_id_def formatTRPCResponse_def row_A_def)

lemma wrap_raw_plain:
  "map_of kvs ''input'' = None \<Longrightarrow> wrap_raw False (JObj kvs) = JObj [(''input'', JObj kvs)]"
  by (simp add: wrap_raw_def)

lemma delete_missing:
  "deleteNote (test_host [(text_missing, json_missing)]) (post_json p text_missing) [row_A] =
     (Failure ''NOT_FOUND'' ''Note with that ID not found'' 404 False, [row_A])"
  by (simp add: deleteNote_def deleteNote_try_def parseInput_post_json wrap_raw_plain
        input_noteId_def json_missing_def sql_bind_id_def select_by_id_def row_A_def
        formatTRPCErrorResponse_def Let_def)


section \<open>Title uniqueness\<close>

text \<open>
  C1.  From the empty table, after any sequence of requests served by the router (create,
  update, delete and the others), no two rows hold the same title.  A \<^verbatim>\<open>createNote\<close> POST
  whose input passes \<^verbatim>\<open>createNoteSchema\<close> with a title that a row already holds is
  answered with \<^verbatim>\<open>CONFLICT\<close>, status 409, and the table is unchanged: by the pre-check
  \<^verbatim>\<open>titleExists\<close> in the handler, and, if the insert is reached with the title taken (the
  race of the specification), by the insert's own \<^verbatim>\<open>catch\<close> of the constraint violation.
\<close>

theorem C1_title_uniqueness:
  assumes "req_method request = ''POST''"
      and "js_get (parseInput h request) ''input'' = Some v"
      and "createNoteSchema_parse v = Inr input"
      and "in_title input \<in> col_title ` set db"
  shows "distinct (map col_title (serve h calls [])) \<and>
         createNote h request uuid now db =
           (formatTRPCErrorResponse ''CONFLICT'' ''Note with that title already exists'' 409
              (req_batch request), db) \<and>
         createNote_insert isBatch input uuid now db =
           Inr (formatTRPCErrorResponse ''CONFLICT'' ''Note with that title already exists'' 409
                  isBatch, db)"
proof -
  have "wf_store (serve h calls [])"
    by (rule serve_wf) (simp add: wf_store_def)
  then have "distinct (map col_title (serve h calls []))"
    by (simp add: wf_store_def)
  then show ?thesis
    using assms by (simp add: createNote_conflict createNote_insert_conflict)
qed

theorem C1_witness:
  "serve (test_host [(text_A, json_A)])
     [(post_json ''/api/trpc/createNote'' text_A, ''id-1'', ''2024-01-01T00:00:00.000Z''),
      (post_json ''/api/trpc/createNote'' text_A, ''id-2'', ''2024-01-02T00:00:00.000Z'')] [] = [row_A] \<and>
   distinct (map col_title [row_A]) \<and>
   createNote (test_host [(text_A, json_A)]) (post_json ''/api/trpc/createNote'' text_A)
     ''id-2'' ''2024-01-02T00:00:00.000Z'' [row_A] =
     (Failure ''CONFLICT'' ''Note with that title already exists'' 409 False, [row_A])"
proof -
  let ?h = "test_host [(text_A, json_A)]"
  let ?rq = "post_json ''/api/trpc/createNote'' text_A"
  let ?calls = "[(?rq, ''id-1'', ''2024-01-01T00:00:00.000Z''), (?rq, ''id-2'', ''2024-01-02T00:00:00.000Z'')]"
  have valid: "req_method ?rq = ''POST''" "js_get (parseInput ?h ?rq) ''input'' = Some json_A"
    "createNoteSchema_parse json_A = Inr input_A"
    "in_title input_A \<in> col_title ` set [row_A]"
    by (simp_all add: parseInput_post_json wrap_json_A parse_json_A input_A_def row_A_def)
  note C1 = C1_title_uniqueness [OF valid, of ?calls "''id-2''" "''2024-01-02T00:00:00.000Z''" False]
  have second: "createNote ?h ?rq ''id-2'' ''2024-01-02T00:00:00.000Z'' [row_A] =
     (Failure ''CONFLICT'' ''Note with that title already exists'' 409 False, [row_A])"
    using C1 by (simp add: formatTRPCErrorResponse_def)
  have run: "serve ?h ?calls [] = [row_A]"
    by (simp add: fetch_def create_A_empty second)
  show ?thesis
    using C1 run second by simp
qed


section \<open>Errors change nothing\<close>

text \<open>
  C9.  On a table that satisfies its constraints, whenever \<^verbatim>\<open>createNote\<close>,
  \<^verbatim>\<open>updateNote\<close> or \<^verbatim>\<open>deleteNote\<close> answers with an error envelope (of any code), the
  table after the request is the table before it.
\<close>

theorem C9_errors_leave_table_unchanged:
  assumes "wf_store db"
  shows "(error_code (fst (createNote h request uuid now db)) \<noteq> None \<longrightarrow>
            snd (createNote h request uuid now db) = db) \<and>
         (error_code (fst (updateNote h request' now db)) \<noteq> None \<longrightarrow>
            snd (updateNote h request' now db) = db) \<and>
         (error_code (fst (deleteNote h request'' db)) \<noteq> None \<longrightarrow>
            snd (deleteNote h request'' db) = db)"
  using assms
  by (simp add: createNote_error_store updateNote_error_store deleteNote_error_store)

theorem C9_witness:
  "wf_store [row_A] \<and>
   deleteNote (test_host [(text_missing, json_missing)])
     (post_json ''/api/trpc/deleteNote'' text_missing) [row_A] =
     (Failure ''NOT_FOUND'' ''Note with that ID not found'' 404 False, [row_A]) \<and>
   snd (createNote (test_host [(text_A, json_A)]) (post_json ''/api/trpc/createNote'' text_A)
          ''id-2'' ''2024-01-02T00:00:00.000Z'' [row_A]) = [row_A]"
proof -
  have wf: "wf_store [row_A]"
    by (simp add: wf_store_def)
  have conflict: "error_code (fst (createNote (test_host [(text_A, json_A)])
      (post_json ''/api/trpc/createNote'' text_A) ''id-2'' ''2024-01-02T00:00:00.000Z'' [row_A])) \<noteq> None"
    by (simp add: createNote_def createNote_try_def parseInput_post_json wrap_json_A parse_json_A
          truthy_json_A titleExists_def input_A_def row_A_def formatTRPCErrorResponse_def)
  show ?thesis
    using wf conflict delete_missing
      C9_errors_leave_table_unchanged [OF wf, of "test_host [(text_A, json_A)]"
        "post_json ''/api/trpc/createNote'' text_A" "''id-2''" "''2024-01-02T00:00:00.000Z''"]
    by simp
qed


section \<open>Methods other than GET and POST\<close>

text \<open>
  C10.  For a request whose method is neither GET nor POST the decoder returns the empty
  input payload, whatever the query and the body carry; so the handler \<^verbatim>\<open>getNote\<close>
  answers \<^verbatim>\<open>BAD_REQUEST\<close> "missing noteId", and \<^verbatim>\<open>getNotes\<close> answers with the first
  ten notes in descending \<^verbatim>\<open>createdAt\<close> order (page 1, limit 10).  Through the router the
  same holds for every such method but OPTIONS, which the router answers itself.
\<close>

theorem C10_other_methods_decode_to_empty_input:
  assumes "req_method request \<noteq> ''GET''" and "req_method request \<noteq> ''POST''"
  shows "parseInput h request = empty_input \<and>
         getNote h request db =
           formatTRPCErrorResponse ''BAD_REQUEST'' ''Invalid request format: missing noteId'' 400
             (req_batch request) \<and>
         getNotes h request db =
           formatTRPCResponse
             (NoteList (length (take 10 (order_by_createdAt_desc db)))
                (map mapSqliteRow (take 10 (order_by_createdAt_desc db))))
             (req_batch request) \<and>
         (req_method request \<noteq> ''OPTIONS'' \<and> req_pathname request = ''/api/trpc/getNote'' \<longrightarrow>
            fetch h request uuid now db =
              (formatTRPCErrorResponse ''BAD_REQUEST'' ''Invalid request format: missing noteId''
                 400 (req_batch request), db)) \<and>
         (req_method request \<noteq> ''OPTIONS'' \<and> req_pathname request = ''/api/trpc/getNotes'' \<longrightarrow>
            fetch h request uuid now db =
              (formatTRPCResponse
                 (NoteList (length (take 10 (order_by_createdAt_desc db)))
                    (map mapSqliteRow (take 10 (order_by_createdAt_desc db))))
                 (req_batch request), db))"
proof -
  have "isl (parseInput_try h request)"
    using assms by (intro parseInput_raises) simp
  then have empty: "parseInput h request = empty_input"
    by (rule parseInput_caught)
  show ?thesis
    by (simp add: empty getNote_empty_input getNotes_empty_input fetch_def)
qed

theorem C10_witness:
  "getNote (test_host [(text_get1, json_get1)])
     (put_request ''/api/trpc/getNote'' text_get1) [row_A] =
     Failure ''BAD_REQUEST'' ''Invalid request format: missing noteId'' 400 False \<and>
   getNotes (test_host [(text_page, json_page)])
     (put_request ''/api/trpc/getNotes'' text_page) [row_A] =
     Result (NoteList 1 [mapSqliteRow row_A]) False"
  using C10_other_methods_decode_to_empty_input
          [of "put_request ''/api/trpc/getNote'' text_get1"
              "test_host [(text_get1, json_get1)]" "[row_A]"]
        C10_other_methods_decode_to_empty_input
          [of "put_request ''/api/trpc/getNotes'' text_page"
              "test_host [(text_page, json_page)]" "[row_A]"]
  by (simp add: put_request_def formatTRPCErrorResponse_def formatTRPCResponse_def
        order_by_createdAt_desc_def)

section \<open>Create, then read\<close>

lemma text_get1_not_A: "text_get1 \<noteq> text_A"
  by (simp add: text_get1_def text_A_def q_def)

lemma text_get1_nonempty: "text_get1 \<noteq> []" "text_neg \<noteq> []" "text_page \<noteq> []"
  by (simp_all add: text_get1_def text_neg_def text_page_def)

lemma select_by_id_fresh: "k \<notin> col_id ` set db \<Longrightarrow> select_by_id k db = []"
  by (simp add: select_by_id_def filter_id_fresh)

lemma createNote_succeeds:
  assumes "req_method request = ''POST''"
      and "js_get (parseInput h request) ''input'' = Some v"
      and "createNoteSchema_parse v = Inr input"
      and "in_title input \<notin> col_title ` set db"
      and "uuid \<notin> col_id ` set db"
  shows "createNote h request uuid now db =
           (formatTRPCResponse (CreatedNote (mapSqliteRow (new_row input uuid now)))
              (req_batch request), db @ [new_row input uuid now])"
proof -
  have obj: "truthy v \<and> typeof_object v"
    using assms(3) by (cases v) (simp_all add: createNoteSchema_parse_def)
  have ins: "sql_insert (new_row input uuid now) db = Inr (db @ [new_row input uuid now])"
    using assms(4,5) by (simp add: sql_insert_def new_row_def)
  have sel: "select_by_id uuid (db @ [new_row input uuid now]) = [new_row input uuid now]"
    using sql_insert_select [OF ins] by (simp add: new_row_def)
  show ?thesis
    using assms obj
    by (simp add: createNote_def createNote_try_def titleExists_iff createNote_insert_def ins sel)
qed

lemma getNote_finds:
  assumes "input_noteId (parseInput h request) = Some (JStr k)"
      and "select_by_id k db = r # rs"
  shows "getNote h request db = formatTRPCResponse (OneNote (mapSqliteRow r)) (req_batch request)"
  using assms by (simp add: getNote_def getNote_try_def sql_bind_id_def)

text \<open>
  C2.  A \<^verbatim>\<open>createNote\<close> POST whose input passes \<^verbatim>\<open>createNoteSchema\<close>, with a title no
  row holds and a fresh identifier, succeeds and returns the note of the new row; a
  \<^verbatim>\<open>getNote\<close> request for the generated id on the table it leaves succeeds and returns
  the same note.  Its title and content are the input's; its category is the input's
  (an empty or absent category is absent), its \<^verbatim>\<open>published\<close> is the input's (absent is
  false); its \<^verbatim>\<open>createdAt\<close> equals its \<^verbatim>\<open>updatedAt\<close>.
\<close>

theorem C2_create_then_get:
  assumes "req_method request = ''POST''"
      and "js_get (parseInput h request) ''input'' = Some v"
      and "createNoteSchema_parse v = Inr input"
      and "in_title input \<notin> col_title ` set db"
      and "uuid \<notin> col_id ` set db"
      and "input_noteId (parseInput h request') = Some (JStr uuid)"
  shows "createNote h request uuid now db =
           (formatTRPCResponse (CreatedNote (mapSqliteRow (new_row input uuid now)))
              (req_batch request), db @ [new_row input uuid now]) \<and>
         getNote h request' (snd (createNote h request uuid now db)) =
           formatTRPCResponse (OneNote (mapSqliteRow (new_row input uuid now))) (req_batch request') \<and>
         note_id (mapSqliteRow (new_row input uuid now)) = uuid \<and>
         note_title (mapSqliteRow (new_row input uuid now)) = in_title input \<and>
         note_content (mapSqliteRow (new_row input uuid now)) = in_content input \<and>
         note_category (mapSqliteRow (new_row input uuid now)) =
           (case in_category input of None \<Rightarrow> None | Some c \<Rightarrow> if c \<noteq> [] then Some c else None) \<and>
         note_published (mapSqliteRow (new_row input uuid now)) = (in_published input = Some True) \<and>
         note_createdAt (mapSqliteRow (new_row input uuid now)) = now \<and>
         note_updatedAt (mapSqliteRow (new_row input uuid now)) =
           note_createdAt (mapSqliteRow (new_row input uuid now))"
proof -
  let ?r = "new_row input uuid now"
  have created: "createNote h request uuid now db =
      (formatTRPCResponse (CreatedNote (mapSqliteRow ?r)) (req_batch request), db @ [?r])"
    using assms(1-5) by (rule createNote_succeeds)
  have "sql_insert ?r db = Inr (db @ [?r])"
    using assms(4,5) by (simp add: sql_insert_def new_row_def)
  then have "select_by_id uuid (db @ [?r]) = [?r]"
    using sql_insert_select [of ?r db "db @ [?r]"] by (simp add: new_row_def)
  then have got: "getNote h request' (db @ [?r]) =
      formatTRPCResponse (OneNote (mapSqliteRow ?r)) (req_batch request')"
    using assms(6) by (simp add: getNote_finds)
  have fields: "note_id (mapSqliteRow ?r) = uuid"
    "note_title (mapSqliteRow ?r) = in_title input"
    "note_content (mapSqliteRow ?r) = in_content input"
    "note_category (mapSqliteRow ?r) =
       (case in_category input of None \<Rightarrow> None | Some c \<Rightarrow> if c \<noteq> [] then Some c else None)"
    "note_published (mapSqliteRow ?r) = (in_published input = Some True)"
    "note_createdAt (mapSqliteRow ?r) = now"
    "note_updatedAt (mapSqliteRow ?r) = now"
    by (simp_all add: mapSqliteRow_def new_row_def split: option.splits)
  show ?thesis
    using got fields by (simp add: created)
qed


theorem C2_witness:
  "createNote (test_host [(text_A, json_A), (text_get1, json_get1)])
     (post_json ''/api/trpc/createNote'' text_A) ''id-1'' ''2024-01-01T00:00:00.000Z'' [] =
     (Result (CreatedNote (mapSqliteRow row_A)) False, [row_A]) \<and>
   getNote (test_host [(text_A, json_A), (text_get1, json_get1)])
     (get_input ''/api/trpc/getNote'' text_get1) [row_A] =
     Result (OneNote (mapSqliteRow row_A)) False"
proof -
  let ?h = "test_host [(text_A, json_A), (text_get1, json_get1)]"
  have "req_method (post_json ''/api/trpc/createNote'' text_A) = ''POST''"
    and "js_get (parseInput ?h (post_json ''/api/trpc/createNote'' text_A)) ''input'' = Some json_A"
    and "createNoteSchema_parse json_A = Inr input_A"
    and "in_title input_A \<notin> col_title ` set []"
    and "''id-1'' \<notin> col_id ` set []"
    and "input_noteId (parseInput ?h (get_input ''/api/trpc/getNote'' text_get1)) =
           Some (JStr ''id-1'')"
    by (simp_all add: parseInput_post_json parseInput_get_input wrap_json_A parse_json_A
          text_get1_not_A text_get1_nonempty json_get1_def wrap_raw_plain input_noteId_def Let_def)
  from C2_create_then_get [OF this, of "''2024-01-01T00:00:00.000Z''"] show ?thesis
    by (clarsimp simp: formatTRPCResponse_def new_row_A)
qed



section \<open>Pagination\<close>

lemma mset_insert_desc: "mset (insert_desc r xs) = add_mset r (mset xs)"
  by (induction xs) simp_all

lemma set_insert_desc: "set (insert_desc r xs) = insert r (set xs)"
  by (induction xs) auto

lemma sorted_insert_desc:
  "sorted_wrt (\<lambda>a b. col_createdAt b \<le> col_createdAt a) xs \<Longrightarrow>
   sorted_wrt (\<lambda>a b. col_createdAt b \<le> col_createdAt a) (insert_desc r xs)"
  by (induction xs) (auto simp: set_insert_desc)

lemma mset_order_by: "mset (order_by_createdAt_desc db) = mset db"
  by (induction db) (simp_all add: order_by_createdAt_desc_def mset_insert_desc)

lemma sorted_order_by:
  "sorted_wrt (\<lambda>a b. col_createdAt b \<le> col_createdAt a) (order_by_createdAt_desc db)"
  by (induction db) (simp_all add: order_by_createdAt_desc_def sorted_insert_desc)

lemma sorted_wrt_take_drop:
  "sorted_wrt R xs \<Longrightarrow> sorted_wrt R (take n (drop m xs))"
  by (simp add: sorted_wrt_drop sorted_wrt_take)

lemma spec_page_positive:
  assumes "1 \<le> L" and "1 \<le> P"
  shows "spec_page L P xs = take (nat L) (drop (nat ((P - 1) * L)) xs)"
proof -
  have "P * L = (P - 1) * L + L"
    by (simp add: algebra_simps)
  moreover have "0 \<le> (P - 1) * L"
    using assms by simp
  ultimately have "nat (P * L) - nat ((P - 1) * L) = nat L"
    using assms by (simp add: nat_add_distrib)
  then show ?thesis
    by (simp add: spec_page_def)
qed

lemma getNotes_integers:
  assumes "js_or (member (js_get (parseInput h request) ''input'') ''page'') (JNum 1) = JNum P"
      and "js_or (member (js_get (parseInput h request) ''input'') ''limit'') (JNum 10) = JNum L"
      and "safe_integer P" "safe_integer L" "safe_integer (P - 1)" "safe_integer ((P - 1) * L)"
  shows "getNotes h request db =
           formatTRPCResponse
             (NoteList (length (sql_limit_offset L ((P - 1) * L) (order_by_createdAt_desc db)))
                (map mapSqliteRow (sql_limit_offset L ((P - 1) * L) (order_by_createdAt_desc db))))
             (req_batch request)"
  using assms by (simp add: getNotes_def getNotes_try_def Let_def js_offset_def select_page_def)

lemma order_A_B: "order_by_createdAt_desc [row_A, row_B] = [row_B, row_A]"
  by (simp add: order_by_createdAt_desc_def row_A_def row_B_def)

text \<open>
  C3, as amended.  For a \<^verbatim>\<open>getNotes\<close> request whose limit \<open>L\<close> and page \<open>P\<close> (10 and 1
  when absent or falsy) are integers with \<open>L \<ge> 1\<close>, \<open>P \<ge> 1\<close> and \<open>P * L \<le> 2^53\<close>, the
  response is a success whose notes are the slice \<open>[(P-1)*L, P*L)\<close> of the table ordered
  by \<^verbatim>\<open>createdAt\<close> descending (a permutation of the table), at most \<open>L\<close> of them, in
  descending order, with \<^verbatim>\<open>results\<close> their number.
\<close>

theorem C3_pagination:
  assumes "js_or (member (js_get (parseInput h request) ''input'') ''page'') (JNum 1) = JNum P"
      and "js_or (member (js_get (parseInput h request) ''input'') ''limit'') (JNum 10) = JNum L"
      and "1 \<le> L" and "1 \<le> P" and "P * L \<le> 2 ^ 53"
  shows "getNotes h request db =
           formatTRPCResponse
             (NoteList (length (spec_page L P (order_by_createdAt_desc db)))
                (map mapSqliteRow (spec_page L P (order_by_createdAt_desc db))))
             (req_batch request) \<and>
         int (length (spec_page L P (order_by_createdAt_desc db))) \<le> L \<and>
         sorted_wrt (\<lambda>a b. note_createdAt b \<le> note_createdAt a)
           (map mapSqliteRow (spec_page L P (order_by_createdAt_desc db))) \<and>
         sorted_wrt (\<lambda>a b. col_createdAt b \<le> col_createdAt a) (order_by_createdAt_desc db) \<and>
         mset (order_by_createdAt_desc db) = mset db"
proof -
  have L: "L \<le> P * L" and P: "P \<le> P * L"
    using assms(3,4) by (simp_all add: mult_le_cancel_left1 mult_le_cancel_right1)
  have off: "0 \<le> (P - 1) * L" "(P - 1) * L \<le> P * L"
    using assms(3,4) by (simp_all add: mult_right_mono)
  have safe: "safe_integer P" "safe_integer L" "safe_integer (P - 1)" "safe_integer ((P - 1) * L)"
    using assms(3-5) L P off unfolding safe_integer_def by linarith+
  have page: "sql_limit_offset L ((P - 1) * L) xs = spec_page L P xs" for xs :: "row list"
    using assms(3,4) by (simp add: sql_limit_offset_def spec_page_positive)
  have sorted_rows: "sorted_wrt (\<lambda>a b. col_createdAt b \<le> col_createdAt a)
      (spec_page L P (order_by_createdAt_desc db))"
    using assms(3,4) by (simp add: spec_page_positive sorted_wrt_take_drop sorted_order_by)
  have sorted_notes: "sorted_wrt (\<lambda>a b. note_createdAt b \<le> note_createdAt a)
      (map mapSqliteRow (spec_page L P (order_by_createdAt_desc db)))"
    using sorted_rows by (simp add: sorted_wrt_map mapSqliteRow_def)
  have len: "int (length (spec_page L P (order_by_createdAt_desc db))) \<le> L"
    using assms(3,4) by (simp add: spec_page_positive)
  show ?thesis
    using getNotes_integers [OF assms(1,2) safe, of db] sorted_notes len
    by (simp add: page sorted_order_by mset_order_by)
qed


theorem C3_witness:
  "getNotes (test_host [(text_page, json_page)]) (get_input ''/api/trpc/getNotes'' text_page)
     [row_A, row_B] =
     Result (NoteList 1 [mapSqliteRow row_A]) False"
proof -
  let ?h = "test_host [(text_page, json_page)]"
  let ?rq = "get_input ''/api/trpc/getNotes'' text_page"
  have "js_or (member (js_get (parseInput ?h ?rq) ''input'') ''page'') (JNum 1) = JNum 2"
    and "js_or (member (js_get (parseInput ?h ?rq) ''input'') ''limit'') (JNum 10) = JNum 1"
    and "(1::int) \<le> 1" and "(1::int) \<le> 2" and "(2::int) * 1 \<le> 2 ^ 53"
    by (simp_all add: parseInput_get_input text_get1_nonempty json_page_def wrap_raw_plain
          js_or_def)
  from C3_pagination [OF this, of "[row_A, row_B]"] show ?thesis
    by (simp add: formatTRPCResponse_def order_A_B spec_page_def)
qed


text \<open>
  C3 as stated fails for a negative limit: with \<^verbatim>\<open>{"limit":-1}\<close> the statement has no
  upper bound, and the response holds both rows of a two-row table, more than \<open>L = -1\<close>
  and not the (empty) slice \<open>[0, -1)\<close>.
\<close>

theorem C3_counterexample:
  "getNotes (test_host [(text_neg, json_neg)]) (get_input ''/api/trpc/getNotes'' text_neg)
     [row_A, row_B] =
     Result (NoteList 2 [mapSqliteRow row_B, mapSqliteRow row_A]) False \<and>
   js_get json_neg ''limit'' = Some (JNum (- 1)) \<and>
   \<not> int (length [mapSqliteRow row_B, mapSqliteRow row_A]) \<le> - 1 \<and>
   spec_page (- 1) 1 (order_by_createdAt_desc [row_A, row_B]) = []"
  by (simp add: getNotes_def getNotes_try_def parseInput_get_input text_get1_nonempty
        json_neg_def wrap_raw_plain js_or_def js_offset_def safe_integer_def select_page_def
        sql_limit_offset_def order_A_B formatTRPCResponse_def spec_page_def)


section \<open>Updates\<close>

lemma fold_updateFields: "fold assign (updateFields_of upd now) r = spec_updated upd now r"
  by (cases "up_title upd"; cases "up_content upd"; cases "up_category upd"; cases "up_published upd")
     (simp_all add: updateFields_of_def spec_updated_def)

lemma select_by_id_member:
  assumes "distinct (map col_id db)" and "r \<in> set db"
  shows "select_by_id (col_id r) db = [r]"
proof -
  from assms(2) obtain xs ys where db: "db = xs @ r # ys"
    by (auto simp: in_set_conv_decomp)
  with assms(1) have "col_id r \<notin> col_id ` set xs" "col_id r \<notin> col_id ` set ys"
    by auto
  then show ?thesis
    by (simp add: db select_by_id_def filter_id_fresh)
qed

lemma map_other_ids:
  "k \<notin> col_id ` set xs \<Longrightarrow> map (\<lambda>x. if col_id x = k then f x else x) xs = xs"
  by (induction xs) auto

lemma update_one_row:
  assumes "distinct (map col_id db)" and "r \<in> set db"
  shows "\<exists>xs ys. db = xs @ r # ys \<and>
           map (\<lambda>x. if col_id x = col_id r then f x else x) db = xs @ f r # ys"
proof -
  from assms(2) obtain xs ys where db: "db = xs @ r # ys"
    by (auto simp: in_set_conv_decomp)
  with assms(1) have "col_id r \<notin> col_id ` set xs" "col_id r \<notin> col_id ` set ys"
    by auto
  then have "map (\<lambda>x. if col_id x = col_id r then f x else x) db = xs @ f r # ys"
    by (simp add: db map_other_ids)
  with db show ?thesis by blast
qed

lemma sql_update_succeeds:
  assumes wf: "wf_store db" and r: "r \<in> set db"
      and free: "col_title (fold assign fs r) = col_title r \<or> col_title (fold assign fs r) \<notin> col_title ` set db"
  shows "sql_update fs (col_id r) db =
           Inr (map (\<lambda>x. if col_id x = col_id r then fold assign fs x else x) db)"
proof -
  from wf have ids: "distinct (map col_id db)" and titles: "distinct (map col_title db)"
    by (simp_all add: wf_store_def)
  from update_one_row [OF ids r, of "fold assign fs"] obtain xs ys
    where db: "db = xs @ r # ys"
      and db': "map (\<lambda>x. if col_id x = col_id r then fold assign fs x else x) db = xs @ fold assign fs r # ys"
    by blast
  from titles db have old: "col_title r \<notin> col_title ` set xs" "col_title r \<notin> col_title ` set ys"
    and rest: "distinct (map col_title xs)" "distinct (map col_title ys)"
    "col_title ` set xs \<inter> col_title ` set ys = {}"
    by auto
  have new: "col_title (fold assign fs r) \<notin> col_title ` set xs \<and>
             col_title (fold assign fs r) \<notin> col_title ` set ys"
  proof (cases "col_title (fold assign fs r) = col_title r")
    case True
    with old show ?thesis by simp
  next
    case False
    with free have "col_title (fold assign fs r) \<notin> col_title ` set db" by simp
    then show ?thesis by (simp add: db image_Un)
  qed
  with rest have "distinct (map col_title (xs @ fold assign fs r # ys))"
    by simp
  then show ?thesis
    unfolding sql_update_def Let_def db' [symmetric] by (simp only: if_True)
qed

lemma updateNote_succeeds:
  assumes wf: "wf_store db"
      and post: "req_method request = ''POST''"
      and noteId: "params_noteId (parseInput h request) = Some noteId"
      and k: "sql_bind_id h noteId = Inr (col_id r)"
      and upd: "updateNoteSchema_parse
                  (js_or (member (js_get (parseInput h request) ''input'') ''body'') (JObj [])) = Inr upd"
      and r: "r \<in> set db"
      and free: "up_title upd = None \<or> up_title upd = Some (col_title r)
                 \<or> (\<exists>t. up_title upd = Some t \<and> t \<notin> col_title ` set db)"
  shows "updateNote h request now db =
           (formatTRPCResponse (OneNote (mapSqliteRow (spec_updated upd now r))) (req_batch request),
            map (\<lambda>x. if col_id x = col_id r then spec_updated upd now x else x) db)"
proof -
  from wf have ids: "distinct (map col_id db)"
    by (simp add: wf_store_def)
  have sel: "select_by_id (col_id r) db = [r]"
    using ids r by (rule select_by_id_member)
  have noconf: "title_conflict upd (col_id r) db = Inr False"
    using free by (auto simp: title_conflict_def sel titleExists_iff)
  have title: "col_title (fold assign (updateFields_of upd now) r) = col_title r
               \<or> col_title (fold assign (updateFields_of upd now) r) \<notin> col_title ` set db"
    using free by (auto simp: fold_updateFields spec_updated_def)
  have updated: "sql_update (updateFields_of upd now) (col_id r) db =
      Inr (map (\<lambda>x. if col_id x = col_id r then spec_updated upd now x else x) db)"
    using sql_update_succeeds [OF wf r title] by (simp add: fold_updateFields)
  have sel': "select_by_id (col_id r)
      (map (\<lambda>x. if col_id x = col_id r then spec_updated upd now x else x) db) = [spec_updated upd now r]"
    using select_by_id_update [OF updated] by (simp add: sel fold_updateFields)
  have exec: "updateNote_exec (req_batch request) upd (col_id r) now db =
      Inr (formatTRPCResponse (OneNote (mapSqliteRow (spec_updated upd now r))) (req_batch request),
           map (\<lambda>x. if col_id x = col_id r then spec_updated upd now x else x) db)"
    by (simp add: updateNote_exec_def updated sel')
  show ?thesis
    by (simp add: updateNote_def updateNote_try_def Let_def post noteId k upd sel noconf exec)
qed

lemma updateNote_conflict:
  assumes wf: "wf_store db"
      and post: "req_method request = ''POST''"
      and noteId: "params_noteId (parseInput h request) = Some noteId"
      and k: "sql_bind_id h noteId = Inr (col_id r)"
      and upd: "updateNoteSchema_parse
                  (js_or (member (js_get (parseInput h request) ''input'') ''body'') (JObj [])) = Inr upd"
      and r: "r \<in> set db"
      and taken: "up_title upd = Some t" "t \<noteq> col_title r" "t \<in> col_title ` set db"
  shows "updateNote h request now db =
           (formatTRPCErrorResponse ''CONFLICT'' ''Note with that title already exists'' 409
              (req_batch request), db)"
proof -
  from wf have ids: "distinct (map col_id db)"
    by (simp add: wf_store_def)
  have sel: "select_by_id (col_id r) db = [r]"
    using ids r by (rule select_by_id_member)
  have conf: "title_conflict upd (col_id r) db = Inr True"
    using taken by (simp add: title_conflict_def sel titleExists_iff)
  show ?thesis
    by (simp add: updateNote_def updateNote_try_def Let_def post noteId k upd sel conf)
qed

lemma parse_title:
  "updateNoteSchema_parse v = Inr upd \<Longrightarrow> js_get v ''title'' = Some (JStr t) \<Longrightarrow> up_title upd = Some t"
  by (auto simp: updateNoteSchema_parse_def split: if_splits option.splits)

lemma updateNote_invalid:
  assumes post: "req_method request = ''POST''"
      and noteId: "params_noteId (parseInput h request) = Some noteId"
      and upd: "updateNoteSchema_parse
                  (js_or (member (js_get (parseInput h request) ''input'') ''body'') (JObj [])) = Inl e"
  shows "updateNote h request now db =
           (formatTRPCErrorResponse ''BAD_REQUEST'' ''Validation error'' 400 (req_batch request), db)"
proof -
  have "e = ZodError"
    using upd by (auto simp: updateNoteSchema_parse_def split: if_splits option.splits)
  then show ?thesis
    by (simp add: updateNote_def updateNote_try_def Let_def post noteId upd catch_write_def)
qed

text \<open>
  C4.  On a table satisfying its constraints, for an \<^verbatim>\<open>updateNote\<close> POST that names an
  existing row: if the payload's title is the row's current title, the response is never
  \<^verbatim>\<open>CONFLICT\<close> (and, the payload passing \<^verbatim>\<open>updateNoteSchema\<close>, it is the success with
  the updated row); if the payload passes the schema with a title that differs from the
  current one and that some row holds, the response is \<^verbatim>\<open>CONFLICT\<close>, status 409, and
  the table is unchanged.
\<close>

theorem C4_update_title_rule:
  assumes wf: "wf_store db"
      and post: "req_method request = ''POST''"
      and noteId: "params_noteId (parseInput h request) = Some noteId"
      and k: "sql_bind_id h noteId = Inr (col_id r)"
      and r: "r \<in> set db"
      and body: "updateData = js_or (member (js_get (parseInput h request) ''input'') ''body'') (JObj [])"
  shows "(js_get updateData ''title'' = Some (JStr (col_title r)) \<longrightarrow>
            error_code (fst (updateNote h request now db)) \<noteq> Some ''CONFLICT'') \<and>
         (updateNoteSchema_parse updateData = Inr upd \<and> up_title upd = Some (col_title r) \<longrightarrow>
            updateNote h request now db =
              (formatTRPCResponse (OneNote (mapSqliteRow (spec_updated upd now r))) (req_batch request),
               map (\<lambda>x. if col_id x = col_id r then spec_updated upd now x else x) db)) \<and>
         (updateNoteSchema_parse updateData = Inr upd \<and> up_title upd = Some t \<and>
          t \<noteq> col_title r \<and> t \<in> col_title ` set db \<longrightarrow>
            updateNote h request now db =
              (formatTRPCErrorResponse ''CONFLICT'' ''Note with that title already exists'' 409
                 (req_batch request), db))"
proof (intro conjI impI)
  assume same: "js_get updateData ''title'' = Some (JStr (col_title r))"
  show "error_code (fst (updateNote h request now db)) \<noteq> Some ''CONFLICT''"
  proof (cases "updateNoteSchema_parse updateData")
    case (Inl e)
    then show ?thesis
      using updateNote_invalid [OF post noteId, of e now db] body
      by (simp add: formatTRPCErrorResponse_def)
  next
    case (Inr u)
    then have "up_title u = Some (col_title r)"
      using same by (rule parse_title)
    then show ?thesis
      using updateNote_succeeds [OF wf post noteId k _ r, of u now] Inr body
      by (simp add: formatTRPCResponse_def)
  qed
next
  assume "updateNoteSchema_parse updateData = Inr upd \<and> up_title upd = Some (col_title r)"
  then show "updateNote h request now db =
      (formatTRPCResponse (OneNote (mapSqliteRow (spec_updated upd now r))) (req_batch request),
       map (\<lambda>x. if col_id x = col_id r then spec_updated upd now x else x) db)"
    using updateNote_succeeds [OF wf post noteId k _ r, of upd now] body by simp
next
  assume "updateNoteSchema_parse updateData = Inr upd \<and> up_title upd = Some t \<and>
          t \<noteq> col_title r \<and> t \<in> col_title ` set db"
  then show "updateNote h request now db =
      (formatTRPCErrorResponse ''CONFLICT'' ''Note with that title already exists'' 409
         (req_batch request), db)"
    using updateNote_conflict [OF wf post noteId k _ r, of upd t now] body by simp
qed


theorem C4_witness:
  "updateNote (test_host [(text_retitle, json_retitle)])
     (post_json ''/api/trpc/updateNote'' text_retitle) ''2024-01-03T00:00:00.000Z''
     [row_A, row_B] =
     (Failure ''CONFLICT'' ''Note with that title already exists'' 409 False, [row_A, row_B]) \<and>
   updateNote (test_host [(text_keep, json_keep)])
     (post_json ''/api/trpc/updateNote'' text_keep) ''2024-01-03T00:00:00.000Z''
     [row_A, row_B] =
     (Result (OneNote (mapSqliteRow (row_A\<lparr>col_updatedAt := ''2024-01-03T00:00:00.000Z''\<rparr>)))
        False,
      [row_A\<lparr>col_updatedAt := ''2024-01-03T00:00:00.000Z''\<rparr>, row_B])"
proof -
  let ?h = "test_host [(text_retitle, json_retitle)]"
  let ?rq = "post_json ''/api/trpc/updateNote'' text_retitle"
  let ?upd = "\<lparr> up_title = Some ''B'', up_content = None, up_category = None, up_published = None \<rparr>"
  have "wf_store [row_A, row_B]"
    and "req_method ?rq = ''POST''"
    and "params_noteId (parseInput ?h ?rq) = Some (JStr ''id-1'')"
    and "sql_bind_id ?h (JStr ''id-1'') = Inr (col_id row_A)"
    and "row_A \<in> set [row_A, row_B]"
    and "JObj [(''title'', JStr ''B'')] =
           js_or (member (js_get (parseInput ?h ?rq) ''input'') ''body'') (JObj [])"
    by (simp_all add: parseInput_post_json wrap_raw_plain wf_store_def row_A_def row_B_def
          params_noteId_def Let_def json_retitle_def sql_bind_id_def js_or_def)
  from C4_update_title_rule
         [OF this, where upd = ?upd and t = "''B''" and now = "''2024-01-03T00:00:00.000Z''"]
  have rejected: "updateNote ?h ?rq ''2024-01-03T00:00:00.000Z'' [row_A, row_B] =
      (Failure ''CONFLICT'' ''Note with that title already exists'' 409 False, [row_A, row_B])"
    by (simp add: updateNoteSchema_parse_def row_A_def row_B_def formatTRPCErrorResponse_def)
  let ?h' = "test_host [(text_keep, json_keep)]"
  let ?rq' = "post_json ''/api/trpc/updateNote'' text_keep"
  let ?upd' = "\<lparr> up_title = Some ''A'', up_content = None, up_category = None, up_published = None \<rparr>"
  have "wf_store [row_A, row_B]"
    and "req_method ?rq' = ''POST''"
    and "params_noteId (parseInput ?h' ?rq') = Some (JStr ''id-1'')"
    and "sql_bind_id ?h' (JStr ''id-1'') = Inr (col_id row_A)"
    and "row_A \<in> set [row_A, row_B]"
    and "JObj [(''title'', JStr ''A'')] =
           js_or (member (js_get (parseInput ?h' ?rq') ''input'') ''body'') (JObj [])"
    by (simp_all add: parseInput_post_json wrap_raw_plain wf_store_def row_A_def row_B_def
          params_noteId_def Let_def json_keep_def sql_bind_id_def js_or_def)
  from C4_update_title_rule
         [OF this, where upd = ?upd' and t = "''A''" and now = "''2024-01-03T00:00:00.000Z''"]
  have kept: "updateNote ?h' ?rq' ''2024-01-03T00:00:00.000Z'' [row_A, row_B] =
      (Result (OneNote (mapSqliteRow (row_A\<lparr>col_updatedAt := ''2024-01-03T00:00:00.000Z''\<rparr>)))
         False,
       [row_A\<lparr>col_updatedAt := ''2024-01-03T00:00:00.000Z''\<rparr>, row_B])"
    by (simp add: updateNoteSchema_parse_def row_A_def row_B_def formatTRPCResponse_def
          spec_updated_def)
  from rejected kept show ?thesis
    by simp
qed

lemma select_by_id_nonempty:
  "select_by_id k db \<noteq> [] \<Longrightarrow> \<exists>r. r \<in> set db \<and> col_id r = k"
  by (auto simp: select_by_id_def filter_empty_conv)

lemma title_conflict_free:
  assumes "title_conflict upd (col_id r) db = Inr False" and "select_by_id (col_id r) db = [r]"
  shows "up_title upd = None \<or> up_title upd = Some (col_title r)
         \<or> (\<exists>t. up_title upd = Some t \<and> t \<notin> col_title ` set db)"
  using assms by (cases "up_title upd") (auto simp: title_conflict_def titleExists_iff)

lemma updateNote_try_result:
  assumes "updateNote_try h request now db = Inr (Result p b, db')"
  shows "\<exists>noteId k upd.
           req_method request = ''POST'' \<and>
           params_noteId (parseInput h request) = Some noteId \<and>
           sql_bind_id h noteId = Inr k \<and>
           updateNoteSchema_parse
             (js_or (member (js_get (parseInput h request) ''input'') ''body'') (JObj [])) = Inr upd \<and>
           select_by_id k db \<noteq> [] \<and>
           title_conflict upd k db = Inr False"
  using assms unfolding updateNote_try_def Let_def
  by (auto simp: formatTRPCErrorResponse_def split: if_splits option.splits sum.splits bool.splits)

lemma updateNote_result:
  assumes "updateNote h request now db = (Result p b, db')"
  shows "updateNote_try h request now db = Inr (Result p b, db')"
  using assms unfolding updateNote_def
  by (auto simp: catch_write_def formatTRPCErrorResponse_def split: sum.splits exn.splits if_splits)

lemma parse_string_field:
  "zod_string_optional (js_get v k) = Some f \<Longrightarrow>
   (case js_get v k of None \<Rightarrow> f = None | Some j \<Rightarrow> \<exists>t. j = JStr t \<and> f = Some t)"
  by (cases "js_get v k" rule: zod_string_optional.cases) auto

lemma parse_boolean_field:
  "zod_boolean_optional (js_get v k) = Some f \<Longrightarrow>
   (case js_get v k of None \<Rightarrow> f = None | Some j \<Rightarrow> \<exists>b. j = JBool b \<and> f = Some b)"
  by (cases "js_get v k" rule: zod_boolean_optional.cases) auto

lemma parse_payload_fields:
  assumes "updateNoteSchema_parse v = Inr upd"
  shows "(case js_get v ''title'' of
            None \<Rightarrow> up_title upd = None
          | Some j \<Rightarrow> \<exists>t. j = JStr t \<and> up_title upd = Some t)"
    and "(case js_get v ''content'' of
            None \<Rightarrow> up_content upd = None
          | Some j \<Rightarrow> \<exists>t. j = JStr t \<and> up_content upd = Some t)"
    and "(case js_get v ''category'' of
            None \<Rightarrow> up_category upd = None
          | Some j \<Rightarrow> \<exists>t. j = JStr t \<and> up_category upd = Some t)"
    and "(case js_get v ''published'' of
            None \<Rightarrow> up_published upd = None
          | Some j \<Rightarrow> \<exists>b. j = JBool b \<and> up_published upd = Some b)"
proof -
  from assms obtain t c cat pub
    where t: "zod_string_optional (js_get v ''title'') = Some t"
      and c: "zod_string_optional (js_get v ''content'') = Some c"
      and cat: "zod_string_optional (js_get v ''category'') = Some cat"
      and pub: "zod_boolean_optional (js_get v ''published'') = Some pub"
      and upd: "upd = \<lparr> up_title = t, up_content = c, up_category = cat, up_published = pub \<rparr>"
    by (auto simp: updateNoteSchema_parse_def split: if_splits option.splits)
  show "(case js_get v ''title'' of
            None \<Rightarrow> up_title upd = None
          | Some j \<Rightarrow> \<exists>t. j = JStr t \<and> up_title upd = Some t)"
    using parse_string_field [OF t] by (auto simp: upd split: option.splits)
  show "(case js_get v ''content'' of
            None \<Rightarrow> up_content upd = None
          | Some j \<Rightarrow> \<exists>t. j = JStr t \<and> up_content upd = Some t)"
    using parse_string_field [OF c] by (auto simp: upd split: option.splits)
  show "(case js_get v ''category'' of
            None \<Rightarrow> up_category upd = None
          | Some j \<Rightarrow> \<exists>t. j = JStr t \<and> up_category upd = Some t)"
    using parse_string_field [OF cat] by (auto simp: upd split: option.splits)
  show "(case js_get v ''published'' of
            None \<Rightarrow> up_published upd = None
          | Some j \<Rightarrow> \<exists>b. j = JBool b \<and> up_published upd = Some b)"
    using parse_boolean_field [OF pub] by (auto simp: upd split: option.splits)
qed

lemma spec_updated_sel:
  "col_title (spec_updated upd now r) = (case up_title upd of None \<Rightarrow> col_title r | Some t \<Rightarrow> t)"
  "col_content (spec_updated upd now r) = (case up_content upd of None \<Rightarrow> col_content r | Some c \<Rightarrow> c)"
  "col_category (spec_updated upd now r) =
     (case up_category upd of None \<Rightarrow> col_category r | Some c \<Rightarrow> Some c)"
  "col_published (spec_updated upd now r) =
     (case up_published upd of None \<Rightarrow> col_published r | Some p \<Rightarrow> if p then 1 else 0)"
  by (simp_all add: spec_updated_def)

lemma string_field_written:
  assumes "case g of None \<Rightarrow> f = None | Some j \<Rightarrow> \<exists>t. j = JStr t \<and> f = Some t"
  shows "case g of
           None \<Rightarrow> (case f of None \<Rightarrow> old | Some t \<Rightarrow> t) = old
         | Some j \<Rightarrow> j = JStr (case f of None \<Rightarrow> old | Some t \<Rightarrow> t)"
  using assms by (cases g) auto

lemma category_field_written:
  assumes "case g of None \<Rightarrow> f = None | Some j \<Rightarrow> \<exists>t. j = JStr t \<and> f = Some t"
  shows "case g of
           None \<Rightarrow> (case f of None \<Rightarrow> old | Some c \<Rightarrow> Some c) = old
         | Some j \<Rightarrow> \<exists>c. j = JStr c \<and> (case f of None \<Rightarrow> old | Some c \<Rightarrow> Some c) = Some c"
  using assms by (cases g) auto

lemma boolean_field_written:
  assumes "case g of None \<Rightarrow> f = None | Some j \<Rightarrow> \<exists>b. j = JBool b \<and> f = Some b"
  shows "case g of
           None \<Rightarrow> (case f of None \<Rightarrow> old | Some p \<Rightarrow> if p then 1 else 0) = (old :: int)
         | Some j \<Rightarrow> \<exists>pb. j = JBool pb \<and>
             (case f of None \<Rightarrow> old | Some p \<Rightarrow> if p then 1 else 0) = (if pb then 1 else 0)"
proof (cases g)
  case None
  with assms show ?thesis by simp
next
  case (Some j)
  with assms obtain b where "j = JBool b" and "f = Some b"
    by auto
  with Some show ?thesis by simp
qed

text \<open>
  C5.  On a table satisfying its constraints, every successful \<^verbatim>\<open>updateNote\<close> names one
  existing row and leaves the table with exactly that row replaced, every other row
  unchanged, and the response carries the replaced row.  Read off the JSON payload
  \<^verbatim>\<open>data.input.body || {}\<close> itself: a field \<^verbatim>\<open>title\<close>, \<^verbatim>\<open>content\<close> or \<^verbatim>\<open>category\<close>
  present in the payload is a string and is the new value of its column, a field
  \<^verbatim>\<open>published\<close> present in the payload is a boolean and the column becomes 1 for
  \<^verbatim>\<open>true\<close>, 0 for \<^verbatim>\<open>false\<close>; each of the four fields absent from the payload keeps its
  prior value; \<^verbatim>\<open>id\<close> and \<^verbatim>\<open>createdAt\<close> are unchanged and \<^verbatim>\<open>updatedAt\<close> is the time
  of the request, also when the payload has no field.
\<close>

theorem C5_update_frame:
  assumes wf: "wf_store db"
      and success: "updateNote h request now db = (Result p b, db')"
      and body: "updateData = js_or (member (js_get (parseInput h request) ''input'') ''body'') (JObj [])"
  shows "\<exists>noteId r r'.
           params_noteId (parseInput h request) = Some noteId \<and>
           sql_bind_id h noteId = Inr (col_id r) \<and>
           r \<in> set db \<and>
           db' = map (\<lambda>x. if col_id x = col_id r then r' else x) db \<and>
           p = OneNote (mapSqliteRow r') \<and>
           col_id r' = col_id r \<and>
           col_createdAt r' = col_createdAt r \<and>
           col_updatedAt r' = now \<and>
           (case js_get updateData ''title'' of
              None \<Rightarrow> col_title r' = col_title r
            | Some j \<Rightarrow> j = JStr (col_title r')) \<and>
           (case js_get updateData ''content'' of
              None \<Rightarrow> col_content r' = col_content r
            | Some j \<Rightarrow> j = JStr (col_content r')) \<and>
           (case js_get updateData ''category'' of
              None \<Rightarrow> col_category r' = col_category r
            | Some j \<Rightarrow> \<exists>c. j = JStr c \<and> col_category r' = Some c) \<and>
           (case js_get updateData ''published'' of
              None \<Rightarrow> col_published r' = col_published r
            | Some j \<Rightarrow> \<exists>pb. j = JBool pb \<and> col_published r' = (if pb then 1 else 0))"
proof -
  from wf have ids: "distinct (map col_id db)"
    by (simp add: wf_store_def)
  from updateNote_try_result [OF updateNote_result [OF success]] obtain noteId k upd
    where post: "req_method request = ''POST''"
      and noteId: "params_noteId (parseInput h request) = Some noteId"
      and k: "sql_bind_id h noteId = Inr k"
      and upd: "updateNoteSchema_parse
          (js_or (member (js_get (parseInput h request) ''input'') ''body'') (JObj [])) = Inr upd"
      and found: "select_by_id k db \<noteq> []"
      and noconf: "title_conflict upd k db = Inr False"
    by blast
  from select_by_id_nonempty [OF found] obtain r where r: "r \<in> set db" and kr: "k = col_id r"
    by blast
  have sel: "select_by_id (col_id r) db = [r]"
    using ids r by (rule select_by_id_member)
  have free: "up_title upd = None \<or> up_title upd = Some (col_title r)
      \<or> (\<exists>t. up_title upd = Some t \<and> t \<notin> col_title ` set db)"
    using noconf sel unfolding kr by (rule title_conflict_free)
  have same: "map (\<lambda>x. if col_id x = col_id r then spec_updated upd now x else x) db =
      map (\<lambda>x. if col_id x = col_id r then spec_updated upd now r else x) db"
  proof (rule map_cong [OF refl])
    fix x assume "x \<in> set db"
    then have "col_id x = col_id r \<Longrightarrow> x = r"
      using ids r by (meson distinct_map inj_onD)
    then show "(if col_id x = col_id r then spec_updated upd now x else x) =
               (if col_id x = col_id r then spec_updated upd now r else x)"
      by auto
  qed
  have result: "updateNote h request now db =
      (formatTRPCResponse (OneNote (mapSqliteRow (spec_updated upd now r))) (req_batch request),
       map (\<lambda>x. if col_id x = col_id r then spec_updated upd now r else x) db)"
    using updateNote_succeeds [OF wf post noteId k [unfolded kr] upd r free, of now] same by simp
  from result success have p: "p = OneNote (mapSqliteRow (spec_updated upd now r))"
    and db': "db' = map (\<lambda>x. if col_id x = col_id r then spec_updated upd now r else x) db"
    by (simp_all add: formatTRPCResponse_def)
  have kept: "col_id (spec_updated upd now r) = col_id r"
    "col_createdAt (spec_updated upd now r) = col_createdAt r"
    "col_updatedAt (spec_updated upd now r) = now"
    by (simp_all add: spec_updated_def)
  have parsed: "updateNoteSchema_parse updateData = Inr upd"
    unfolding body by (rule upd)
  have title: "(case js_get updateData ''title'' of
        None \<Rightarrow> col_title (spec_updated upd now r) = col_title r
      | Some j \<Rightarrow> j = JStr (col_title (spec_updated upd now r)))"
    unfolding spec_updated_sel
    by (rule string_field_written [OF parse_payload_fields(1) [OF parsed]])
  have content: "(case js_get updateData ''content'' of
        None \<Rightarrow> col_content (spec_updated upd now r) = col_content r
      | Some j \<Rightarrow> j = JStr (col_content (spec_updated upd now r)))"
    unfolding spec_updated_sel
    by (rule string_field_written [OF parse_payload_fields(2) [OF parsed]])
  have category: "(case js_get updateData ''category'' of
        None \<Rightarrow> col_category (spec_updated upd now r) = col_category r
      | Some j \<Rightarrow> \<exists>c. j = JStr c \<and> col_category (spec_updated upd now r) = Some c)"
    unfolding spec_updated_sel
    by (rule category_field_written [OF parse_payload_fields(3) [OF parsed]])
  have published: "(case js_get updateData ''published'' of
        None \<Rightarrow> col_published (spec_updated upd now r) = col_published r
      | Some j \<Rightarrow> \<exists>pb. j = JBool pb \<and>
          col_published (spec_updated upd now r) = (if pb then 1 else 0))"
    unfolding spec_updated_sel
    by (rule boolean_field_written [OF parse_payload_fields(4) [OF parsed]])
  show ?thesis
  proof (intro exI conjI)
    show "params_noteId (parseInput h request) = Some noteId"
      by (rule noteId)
    show "sql_bind_id h noteId = Inr (col_id r)"
      by (rule k [unfolded kr])
    show "r \<in> set db"
      by (rule r)
    show "db' = map (\<lambda>x. if col_id x = col_id r then spec_updated upd now r else x) db"
      by (rule db')
    show "p = OneNote (mapSqliteRow (spec_updated upd now r))"
      by (rule p)
  qed (rule kept title content category published)+
qed

theorem C5_witness:
  "wf_store [row_A, row_B] \<and>
   updateNote (test_host [(text_edit, json_edit)])
     (post_json ''/api/trpc/updateNote'' text_edit) ''2024-01-03T00:00:00.000Z'' [row_A, row_B] =
     (Result (OneNote
        \<lparr> note_id = ''id-1'', note_title = ''C'', note_content = ''z'',
          note_category = Some ''home'', note_published = True,
          note_createdAt = ''2024-01-01T00:00:00.000Z'',
          note_updatedAt = ''2024-01-03T00:00:00.000Z'' \<rparr>) False,
      [\<lparr> col_id = ''id-1'', col_title = ''C'', col_content = ''z'', col_category = Some ''home'',
         col_published = 1, col_createdAt = ''2024-01-01T00:00:00.000Z'',
         col_updatedAt = ''2024-01-03T00:00:00.000Z'' \<rparr>, row_B]) \<and>
   updateNote (test_host [(text_touch, json_touch)])
     (post_json ''/api/trpc/updateNote'' text_touch) ''2024-01-03T00:00:00.000Z'' [row_A, row_B] =
     (Result (OneNote (mapSqliteRow (row_A\<lparr>col_updatedAt := ''2024-01-03T00:00:00.000Z''\<rparr>))) False,
      [row_A\<lparr>col_updatedAt := ''2024-01-03T00:00:00.000Z''\<rparr>, row_B])"
proof -
  have wf: "wf_store [row_A, row_B]"
    by (simp add: wf_store_def row_A_def row_B_def)
  have edit: "updateNote (test_host [(text_edit, json_edit)])
      (post_json ''/api/trpc/updateNote'' text_edit) ''2024-01-03T00:00:00.000Z'' [row_A, row_B] =
     (Result (OneNote
        \<lparr> note_id = ''id-1'', note_title = ''C'', note_content = ''z'',
          note_category = Some ''home'', note_published = True,
          note_createdAt = ''2024-01-01T00:00:00.000Z'',
          note_updatedAt = ''2024-01-03T00:00:00.000Z'' \<rparr>) False,
      [\<lparr> col_id = ''id-1'', col_title = ''C'', col_content = ''z'', col_category = Some ''home'',
         col_published = 1, col_createdAt = ''2024-01-01T00:00:00.000Z'',
         col_updatedAt = ''2024-01-03T00:00:00.000Z'' \<rparr>, row_B])"
    by (simp add: updateNote_def updateNote_try_def parseInput_post_json wrap_raw_plain
          params_noteId_def Let_def json_edit_def js_or_def updateNoteSchema_parse_def
          sql_bind_id_def select_by_id_def title_conflict_def titleExists_def updateNote_exec_def
          updateFields_of_def sql_update_def formatTRPCResponse_def mapSqliteRow_def
          row_A_def row_B_def)
  have touch: "updateNote (test_host [(text_touch, json_touch)])
      (post_json ''/api/trpc/updateNote'' text_touch) ''2024-01-03T00:00:00.000Z'' [row_A, row_B] =
     (Result (OneNote (mapSqliteRow (row_A\<lparr>col_updatedAt := ''2024-01-03T00:00:00.000Z''\<rparr>))) False,
      [row_A\<lparr>col_updatedAt := ''2024-01-03T00:00:00.000Z''\<rparr>, row_B])"
    by (simp add: updateNote_def updateNote_try_def parseInput_post_json wrap_raw_plain
          params_noteId_def Let_def json_touch_def js_or_def updateNoteSchema_parse_def
          sql_bind_id_def select_by_id_def title_conflict_def updateNote_exec_def
          updateFields_of_def sql_update_def formatTRPCResponse_def row_A_def row_B_def)
  from C5_update_frame [OF wf edit refl] C5_update_frame [OF wf touch refl] wf edit touch
  show ?thesis
    by simp
qed


section \<open>getNotes does not validate\<close>

text \<open>
  C8.  \<^verbatim>\<open>getNotes\<close> never applies \<^verbatim>\<open>filterQuerySchema\<close>: whatever the request carries
  (also a \<^verbatim>\<open>limit\<close> or \<^verbatim>\<open>page\<close> that is not a number), its response is never a
  \<^verbatim>\<open>BAD_REQUEST\<close>.  The \<^verbatim>\<open>ZodError\<close> branch of its \<^verbatim>\<open>catch\<close> is dead.  With
  \<^verbatim>\<open>{"limit":"abc"}\<close> the string reaches the statement; on a host whose statement rejects
  it, the response is \<^verbatim>\<open>INTERNAL_SERVER_ERROR\<close>, status 500.
\<close>

theorem C8_getNotes_never_bad_request:
  "error_code (getNotes h request db) \<noteq> Some ''BAD_REQUEST'' \<and>
   getNotes (test_host [(text_abc, json_abc)]) (get_input ''/api/trpc/getNotes'' text_abc)
     [row_A] =
     Failure ''INTERNAL_SERVER_ERROR'' ''datatype mismatch'' 500 False"
proof -
  have never: "error_code (getNotes h request db) \<noteq> Some ''BAD_REQUEST''"
    by (simp add: getNotes_def getNotes_try_def Let_def catch_getNotes_def
          formatTRPCErrorResponse_def formatTRPCResponse_def split: sum.splits)
  have "text_abc \<noteq> []"
    by (simp add: text_abc_def)
  then have "getNotes (test_host [(text_abc, json_abc)])
      (get_input ''/api/trpc/getNotes'' text_abc) [row_A] =
      Failure ''INTERNAL_SERVER_ERROR'' ''datatype mismatch'' 500 False"
    by (simp add: getNotes_def getNotes_try_def parseInput_get_input json_abc_def wrap_raw_plain
          js_or_def js_offset_def select_page_def catch_getNotes_def formatTRPCErrorResponse_def)
  with never show ?thesis
    by simp
qed

end
